theory Spec2Isabelle
  imports Complex_Main "HOL-Library.Word"
begin

section \<open>Voice relay backend: data model\<close>

text \<open>
  The development embeds \<^verbatim>\<open>src/backend/main.py\<close>: the voice activity detector
  (\<^verbatim>\<open>VoiceActivityDetector\<close>), the connection to the speech service
  (\<^verbatim>\<open>AwaazConnection\<close>) and the websocket endpoint with its two pumps.

  Python exceptions are values of \<open>py_exc\<close>; a computation that may raise returns
  \<open>py_exc + 'a\<close> with \<open>Inl\<close> the exception. Bytes are \<open>8 word\<close>, PCM samples
  \<open>16 word\<close> (read signed with \<open>sint\<close>). float32 and float64 values are reals; where
  the rounding or the range of floating point arithmetic can change control flow (the
  length computed in \<^verbatim>\<open>resample_audio\<close>, the energy cutoff in \<^verbatim>\<open>is_speech\<close>)
  the floating point operation is a parameter.
\<close>

datatype py_exc =
    ValueError | ZeroDivisionError | OverflowError | KeyError | TypeError | AttributeError
  | NameError
  | BinasciiError | JSONDecodeError | ConnectionClosed | RuntimeError

type_synonym byte = "8 word"
type_synonym sample = "16 word"

text \<open>
  The library functions the module calls. They are not part of the repository, so the
  model takes them as parameters:
  \<^item> \<open>signal_resample\<close>: \<^verbatim>\<open>scipy.signal.resample(x, num)\<close>;
  \<^item> \<open>b64decode\<close>, \<open>b64encode\<close>: \<^verbatim>\<open>base64.b64decode\<close>, \<^verbatim>\<open>base64.b64encode(..).decode("utf-8")\<close>;
  \<^item> \<open>fl64\<close>: rounding of a real to the nearest double, \<open>None\<close> when the real is
    beyond the range of the doubles (the operation overflows);
  \<^item> \<open>rms_gt\<close>: \<open>rms_gt xs c\<close> is the outcome of \<^verbatim>\<open>rms > c\<close> for
    \<^verbatim>\<open>rms = np.sqrt(np.mean(xs ** 2))\<close> as numpy computes it on a float32 array.
\<close>

record libs =
  signal_resample :: "real list \<Rightarrow> int \<Rightarrow> py_exc + real list"
  b64decode :: "string \<Rightarrow> py_exc + byte list"
  b64encode :: "byte list \<Rightarrow> string"
  fl64 :: "real \<Rightarrow> real option"
  rms_gt :: "real list \<Rightarrow> real \<Rightarrow> bool"

text \<open>The contract of \<^verbatim>\<open>scipy.signal.resample\<close> used below: asked for \<open>num \<ge> 1\<close>
  samples of a non-empty signal, it returns exactly \<open>num\<close> samples.\<close>

definition resample_contract :: "libs \<Rightarrow> bool" where
  "resample_contract L \<longleftrightarrow>
     (\<forall>xs num. xs \<noteq> [] \<and> 1 \<le> num \<longrightarrow>
        (\<exists>ys. signal_resample L xs num = Inr ys \<and> int (length ys) = num))"

subsection \<open>Reference instances of the library functions\<close>

text \<open>
  Concrete instances, used to evaluate the model on concrete inputs.
  \<open>hold_resample\<close> stands for the library resampler: it returns \<open>num\<close> samples (each the
  sample that is nearest on the left), and raises for \<open>num < 1\<close>.
\<close>

definition hold_resample :: "real list \<Rightarrow> int \<Rightarrow> py_exc + real list" where
  "hold_resample xs num =
     (if num < 1 \<or> xs = [] then Inl ValueError
      else Inr (map (\<lambda>j. xs ! ((j * length xs) div nat num)) [0..<nat num]))"

text \<open>Base64 with the standard alphabet.\<close>

definition b64_alphabet :: string where
  "b64_alphabet = ''ABCDEFGHIJKLMNOPQRSTUVWXYZabcdefghijklmnopqrstuvwxyz0123456789+/''"

definition b64_char :: "nat \<Rightarrow> char" where
  "b64_char n = b64_alphabet ! (n mod 64)"

fun index_of :: "char \<Rightarrow> string \<Rightarrow> nat \<Rightarrow> nat option" where
  "index_of c [] i = None"
| "index_of c (x # xs) i = (if c = x then Some i else index_of c xs (Suc i))"

fun py_b64encode_nat :: "nat list \<Rightarrow> string" where
  "py_b64encode_nat [] = []"
| "py_b64encode_nat [a] =
     [b64_char (a div 4), b64_char ((a mod 4) * 16), CHR ''='', CHR ''='']"
| "py_b64encode_nat [a, b] =
     [b64_char (a div 4), b64_char ((a mod 4) * 16 + b div 16),
      b64_char ((b mod 16) * 4), CHR ''='']"
| "py_b64encode_nat (a # b # c # rest) =
     [b64_char (a div 4), b64_char ((a mod 4) * 16 + b div 16),
      b64_char ((b mod 16) * 4 + c div 64), b64_char (c mod 64)] @ py_b64encode_nat rest"

definition py_b64encode :: "byte list \<Rightarrow> string" where
  "py_b64encode bs = py_b64encode_nat (map unat bs)"

text \<open>
  Decoding as \<^verbatim>\<open>binascii.a2b_base64\<close> does without validation: characters outside the
  alphabet are skipped, a complete pad sequence ends the input, and a trailing partial
  group raises. The state is the position in the group of four, the bits left over and
  the number of pads seen.
\<close>

fun a2b_base64 :: "string \<Rightarrow> nat \<Rightarrow> nat \<Rightarrow> nat \<Rightarrow> py_exc + nat list" where
  "a2b_base64 [] quad_pos leftchar pads =
     (if quad_pos \<noteq> 0 then Inl BinasciiError else Inr [])"
| "a2b_base64 (c # cs) quad_pos leftchar pads =
     (if c = CHR ''='' then
        (if quad_pos \<ge> 2 \<and> quad_pos + (pads + 1) \<ge> 4 then Inr []
         else a2b_base64 cs quad_pos leftchar (pads + 1))
      else case index_of c b64_alphabet 0 of
        None \<Rightarrow> a2b_base64 cs quad_pos leftchar pads
      | Some v \<Rightarrow>
          (if quad_pos = 0 then a2b_base64 cs 1 v 0
           else if quad_pos = 1 then
             (case a2b_base64 cs 2 (v mod 16) 0 of Inl e \<Rightarrow> Inl e
              | Inr out \<Rightarrow> Inr ((leftchar * 4 + v div 16) # out))
           else if quad_pos = 2 then
             (case a2b_base64 cs 3 (v mod 4) 0 of Inl e \<Rightarrow> Inl e
              | Inr out \<Rightarrow> Inr ((leftchar * 16 + v div 4) # out))
           else
             (case a2b_base64 cs 0 0 0 of Inl e \<Rightarrow> Inl e
              | Inr out \<Rightarrow> Inr ((leftchar * 64 + v) # out))))"

definition py_b64decode :: "string \<Rightarrow> py_exc + byte list" where
  "py_b64decode s =
     (case a2b_base64 s 0 0 0 of Inl e \<Rightarrow> Inl e | Inr out \<Rightarrow> Inr (map of_nat out))"

text \<open>
  Floating point without rounding: a real within the range of the doubles is itself
  (\<open>double_bound\<close>, which is \<open>2 ^ 1024 - 2 ^ 970\<close>, is the least magnitude that rounds
  to infinity; lemma \<open>double_bound_eq\<close>), and the energy
  is compared on the squares, \<open>mean(xs ** 2) > c * c\<close>, which for \<open>c \<ge> 0\<close> is
  \<open>sqrt(mean(xs ** 2)) > c\<close> (lemma \<open>exact_rms_gt_sqrt\<close>).
\<close>

definition double_bound :: real where
  "double_bound =
     179769313486231580793728971405303415079934132710037826936173778980444968292764750946649017977587207096330286416692887910946555547851940402630657488671505820681908902000708383676273854845817711531764475730270069855571366959622842914819860834936475292719074168444365510704342711559699508093042880177904174497792"

definition exact_fl64 :: "real \<Rightarrow> real option" where
  "exact_fl64 x = (if \<bar>x\<bar> < double_bound then Some x else None)"

definition mean_square :: "real list \<Rightarrow> real" where
  "mean_square xs = sum_list (map (\<lambda>x. x * x) xs) / real (length xs)"

definition exact_rms_gt :: "real list \<Rightarrow> real \<Rightarrow> bool" where
  "exact_rms_gt xs c \<longleftrightarrow> mean_square xs > c * c"

definition ref_libs :: libs where
  "ref_libs = \<lparr> signal_resample = hold_resample, b64decode = py_b64decode,
                b64encode = py_b64encode, fl64 = exact_fl64, rms_gt = exact_rms_gt \<rparr>"

section \<open>VoiceActivityDetector\<close>

text \<open>
  \<open>model\<close> is the loaded classifier (\<open>None\<close> when loading failed): given the window it
  returns the speech probability or raises. \<open>target_sample_rate\<close> is only assigned when
  loading succeeds.
\<close>

type_synonym scorer = "real list \<Rightarrow> py_exc + real"

record vad =
  model :: "scorer option"
  is_initialized :: bool
  target_sample_rate :: "int option"

definition VoiceActivityDetector_init :: "py_exc + scorer \<Rightarrow> vad" where
  "VoiceActivityDetector_init loaded =
     (case loaded of
        Inr m \<Rightarrow> \<lparr> model = Some m, is_initialized = True, target_sample_rate = Some 16000 \<rparr>
      | Inl e \<Rightarrow> \<lparr> model = None, is_initialized = False, target_sample_rate = None \<rparr>)"

text \<open>Python's \<^verbatim>\<open>int(x)\<close> on a float: truncation towards zero.\<close>

definition py_int :: "real \<Rightarrow> int" where
  "py_int x = (if 0 \<le> x then \<lfloor>x\<rfloor> else \<lceil>x\<rceil>)"

text \<open>
  \<^verbatim>\<open>ratio = target_rate / original_rate\<close> and
  \<^verbatim>\<open>new_length = int(len(audio_data) * ratio)\<close>, for a non-zero \<open>original_rate\<close>. The
  division of two integers raises when the quotient is beyond the doubles; a product
  beyond the doubles is infinite, and \<^verbatim>\<open>int\<close> raises on it.
\<close>

definition new_length :: "libs \<Rightarrow> nat \<Rightarrow> int \<Rightarrow> int \<Rightarrow> py_exc + int" where
  "new_length L n original_rate target_rate =
     (case fl64 L (real_of_int target_rate / real_of_int original_rate) of
        None \<Rightarrow> Inl OverflowError
      | Some ratio \<Rightarrow>
          (case fl64 L (real n * ratio) of
             None \<Rightarrow> Inl OverflowError
           | Some product \<Rightarrow> Inr (py_int product)))"

definition resample_audio :: "libs \<Rightarrow> real list \<Rightarrow> int \<Rightarrow> int \<Rightarrow> py_exc + real list" where
  "resample_audio L audio_data original_rate target_rate =
     (if original_rate = target_rate then Inr audio_data
      else if original_rate = 0 then Inl ZeroDivisionError
      else case new_length L (length audio_data) original_rate target_rate of
             Inl e \<Rightarrow> Inl e
           | Inr n \<Rightarrow> signal_resample L audio_data n)"

text \<open>\<^verbatim>\<open>np.frombuffer(data, dtype=np.int16)\<close>: little-endian pairs; a buffer whose size
  is not a multiple of two raises.\<close>

fun pairs_int16 :: "byte list \<Rightarrow> sample list" where
  "pairs_int16 (lo # hi # bs) = (ucast lo + push_bit 8 (ucast hi)) # pairs_int16 bs"
| "pairs_int16 bs = []"

definition frombuffer_int16 :: "byte list \<Rightarrow> py_exc + sample list" where
  "frombuffer_int16 bs = (if odd (length bs) then Inl ValueError else Inr (pairs_int16 bs))"

definition to_float :: "sample list \<Rightarrow> real list" where
  "to_float audio_np = map (\<lambda>s. real_of_int (sint s) / 32768) audio_np"

text \<open>The fixed window of 512 samples: zero padding on the right, or the middle portion.\<close>

definition fit_window :: "real list \<Rightarrow> real list" where
  "fit_window audio_float =
     (let required_samples = 512 in
      if length audio_float < required_samples then
        audio_float @ replicate (required_samples - length audio_float) 0
      else if length audio_float > required_samples then
        (let start_idx = (length audio_float - required_samples) div 2
         in take required_samples (drop start_idx audio_float))
      else audio_float)"

text \<open>
  The body of the \<^verbatim>\<open>try\<close> block of \<^verbatim>\<open>is_speech\<close>. The second component is the
  list of windows on which the classifier was invoked.
\<close>

definition is_speech_try ::
  "libs \<Rightarrow> scorer \<Rightarrow> int option \<Rightarrow> byte list \<Rightarrow> int \<Rightarrow> (py_exc + bool) \<times> real list list" where
  "is_speech_try L score tsr audio_data sample_rate =
     (case frombuffer_int16 audio_data of
        Inl e \<Rightarrow> (Inl e, [])
      | Inr audio_np \<Rightarrow>
          if length audio_np = 0 then (Inr False, [])
          else
            (case tsr of
               None \<Rightarrow> (Inl AttributeError, [])
             | Some target \<Rightarrow>
                 (case (if sample_rate \<noteq> target
                        then resample_audio L (to_float audio_np) sample_rate target
                        else Inr (to_float audio_np)) of
                    Inl e \<Rightarrow> (Inl e, [])
                  | Inr audio_float \<Rightarrow>
                      (let w = fit_window audio_float in
                       case score w of
                         Inl e \<Rightarrow> (Inl e, [w])
                       | Inr speech_prob \<Rightarrow>
                           (let threshold = (if rms_gt L w 0.005 then 0.2 else 0.3)
                            in (Inr (speech_prob > threshold), [w]))))))"

definition is_speech :: "libs \<Rightarrow> vad \<Rightarrow> byte list \<Rightarrow> int \<Rightarrow> bool \<times> real list list" where
  "is_speech L v audio_data sample_rate =
     (if \<not> is_initialized v then (True, [])
      else case model v of
        None \<Rightarrow> (True, [])
      | Some score \<Rightarrow>
          (case is_speech_try L score (target_sample_rate v) audio_data sample_rate of
             (Inl e, calls) \<Rightarrow> (True, calls)
           | (Inr b, calls) \<Rightarrow> (b, calls)))"

section \<open>JSON values\<close>

text \<open>
  The values \<^verbatim>\<open>json.loads\<close> produces. An object carries its items; a parsed object
  has distinct keys, and \<open>map_of\<close> looks a key up.
\<close>

datatype json =
    JNull | JBool bool | JInt int | JFloat real | JStr string
  | JArr "json list" | JObj "(string \<times> json) list"

type_synonym dict = "(string \<times> json) list"

text \<open>Python truthiness, as \<^verbatim>\<open>if value:\<close> tests it.\<close>

fun truthy :: "json \<Rightarrow> bool" where
  "truthy JNull = False"
| "truthy (JBool b) = b"
| "truthy (JInt n) = (n \<noteq> 0)"
| "truthy (JFloat x) = (x \<noteq> 0)"
| "truthy (JStr s) = (s \<noteq> [])"
| "truthy (JArr xs) = (xs \<noteq> [])"
| "truthy (JObj kvs) = (kvs \<noteq> [])"

text \<open>\<^verbatim>\<open>d.get(key, default)\<close> and \<^verbatim>\<open>key in d\<close> on a dict.\<close>

definition dict_get :: "dict \<Rightarrow> string \<Rightarrow> json \<Rightarrow> json" where
  "dict_get d k dflt = (case map_of d k of None \<Rightarrow> dflt | Some v \<Rightarrow> v)"

definition has_key :: "dict \<Rightarrow> string \<Rightarrow> bool" where
  "has_key d k \<longleftrightarrow> map_of d k \<noteq> None"

section \<open>AwaazConnection\<close>

text \<open>
  The channel to the speech service: \<open>NoSocket\<close> is \<^verbatim>\<open>self.ws = None\<close>. The messages
  transmitted on it are recorded, in order, in the field \<open>sent\<close>. The MIME type
  \<^verbatim>\<open>audio/pcm;rate=N\<close> of an audio message is kept as the number \<open>N\<close>.
\<close>

datatype ws_state = NoSocket | WsOpen | WsClosed

datatype svc_msg =
    Setup (setup_voice: json) (setup_prompt: json)
  | RealtimeInput (data: string) (rate: int)

fun is_realtime_input :: "svc_msg \<Rightarrow> bool" where
  "is_realtime_input (RealtimeInput d r) = True"
| "is_realtime_input (Setup v p) = False"

record awaaz =
  ws :: ws_state
  config :: "dict option"
  running :: bool
  vad :: vad
  is_playing :: bool
  vad_enabled :: json
  sent :: "svc_msg list"

definition AwaazConnection_init :: "py_exc + scorer \<Rightarrow> awaaz" where
  "AwaazConnection_init loaded =
     \<lparr> ws = NoSocket, config = None, running = True,
       vad = VoiceActivityDetector_init loaded, is_playing = False,
       vad_enabled = JBool True, sent = [] \<rparr>"

definition set_config :: "awaaz \<Rightarrow> dict \<Rightarrow> awaaz" where
  "set_config a cfg =
     a\<lparr> config := Some cfg, vad_enabled := dict_get cfg ''vad_enabled'' (JBool True) \<rparr>"

text \<open>\<^verbatim>\<open>await self.ws.send(..)\<close>: raises without a socket or on a closed one.\<close>

definition ws_send :: "awaaz \<Rightarrow> svc_msg \<Rightarrow> py_exc + awaaz" where
  "ws_send a m =
     (case ws a of
        NoSocket \<Rightarrow> Inl AttributeError
      | WsClosed \<Rightarrow> Inl ConnectionClosed
      | WsOpen \<Rightarrow> Inr (a\<lparr> sent := sent a @ [m] \<rparr>))"

text \<open>\<^verbatim>\<open>(x * 32768).astype(np.int16)\<close> and \<^verbatim>\<open>tobytes()\<close> (little-endian).\<close>

definition to_int16 :: "real \<Rightarrow> sample" where
  "to_int16 x = word_of_int (py_int (x * 32768))"

fun tobytes :: "sample list \<Rightarrow> byte list" where
  "tobytes [] = []"
| "tobytes (s # ss) = ucast s # ucast (drop_bit 8 s) # tobytes ss"

text \<open>
  \<^verbatim>\<open>send_audio\<close>, in the order of the source: the voice activity detection
  (lines 247-264), the admission test (lines 266-268) and the message that is transmitted
  (lines 271-299). Every exception is caught by the outer \<^verbatim>\<open>except\<close> and ends the
  call with nothing transmitted. The result of \<open>send_audio\<close> is the connection (with
  its record of transmitted messages) and the windows on which the classifier was invoked.
\<close>

definition apply_vad ::
  "libs \<Rightarrow> awaaz \<Rightarrow> string \<Rightarrow> byte list \<Rightarrow> int \<Rightarrow> string \<times> real list list" where
  "apply_vad L a audio_data audio_bytes sample_rate =
     (if truthy (vad_enabled a) then
        (case is_speech L (vad a) audio_bytes sample_rate of
           (speech, calls) \<Rightarrow>
             (if \<not> speech
              then b64encode L (replicate (length audio_bytes) 0)
              else audio_data, calls))
      else (audio_data, []))"

definition should_process :: "awaaz \<Rightarrow> dict \<Rightarrow> bool" where
  "should_process a cfg =
     (let allow_interruptions = dict_get cfg ''allow_interruptions'' (JBool False)
      in \<not> is_playing a \<or> (is_playing a \<and> truthy allow_interruptions))"

definition realtime_input :: "libs \<Rightarrow> string \<Rightarrow> byte list \<Rightarrow> int \<Rightarrow> py_exc + svc_msg" where
  "realtime_input L audio_data audio_bytes sample_rate =
     (if sample_rate = 16000 then
        (case frombuffer_int16 audio_bytes of
           Inl e \<Rightarrow> Inl e
         | Inr audio_np \<Rightarrow>
             (case resample_audio L (to_float audio_np) 16000 24000 of
                Inl e \<Rightarrow> Inl e
              | Inr resampled_audio \<Rightarrow>
                  Inr (RealtimeInput
                         (b64encode L (tobytes (map to_int16 resampled_audio))) 24000)))
      else Inr (RealtimeInput audio_data sample_rate))"

definition send_audio :: "libs \<Rightarrow> awaaz \<Rightarrow> string \<Rightarrow> int \<Rightarrow> awaaz \<times> real list list" where
  "send_audio L a audio_data sample_rate =
     (case b64decode L audio_data of
        Inl e \<Rightarrow> (a, [])
      | Inr audio_bytes \<Rightarrow>
          if length audio_bytes = 0 then (a, [])
          else
            (case frombuffer_int16 audio_bytes of
               Inl e \<Rightarrow> (a, [])
             | Inr audio_np \<Rightarrow>
                 (case apply_vad L a audio_data audio_bytes sample_rate of
                    (audio_data1, calls) \<Rightarrow>
                      (case config a of
                         None \<Rightarrow> (a, calls)
                       | Some cfg \<Rightarrow>
                           if should_process a cfg then
                             (case realtime_input L audio_data1 audio_bytes sample_rate of
                                Inl e \<Rightarrow> (a, calls)
                              | Inr m \<Rightarrow>
                                  (case ws_send a m of
                                     Inl e \<Rightarrow> (a, calls)
                                   | Inr a' \<Rightarrow> (a', calls)))
                           else (a, calls)))))"

section \<open>The websocket endpoint\<close>

subsection \<open>Python operations on parsed JSON\<close>

text \<open>\<^verbatim>\<open>len(x)\<close> is defined on strings, lists and dicts; it raises on the other values.\<close>

fun has_len :: "json \<Rightarrow> bool" where
  "has_len (JStr s) = True"
| "has_len (JArr xs) = True"
| "has_len (JObj kvs) = True"
| "has_len v = False"

text \<open>Iteration: the elements of a list, the characters of a string, the keys of a dict.\<close>

fun py_iter :: "json \<Rightarrow> py_exc + json list" where
  "py_iter (JArr xs) = Inr xs"
| "py_iter (JStr s) = Inr (map (\<lambda>c. JStr [c]) s)"
| "py_iter (JObj kvs) = Inr (map (\<lambda>kv. JStr (fst kv)) kvs)"
| "py_iter v = Inl TypeError"

fun starts_with :: "string \<Rightarrow> string \<Rightarrow> bool" where
  "starts_with s [] = True"
| "starts_with [] (k # ks) = False"
| "starts_with (c # cs) (k # ks) = (c = k \<and> starts_with cs ks)"

fun contains :: "string \<Rightarrow> string \<Rightarrow> bool" where
  "contains [] k = (k = [])"
| "contains (c # cs) k = (starts_with (c # cs) k \<or> contains cs k)"

text \<open>\<^verbatim>\<open>key in x\<close>: a key of a dict, a substring of a string, an element of a list.\<close>

fun py_in :: "string \<Rightarrow> json \<Rightarrow> py_exc + bool" where
  "py_in k (JObj kvs) = Inr (has_key kvs k)"
| "py_in k (JStr s) = Inr (contains s k)"
| "py_in k (JArr xs) = Inr (JStr k \<in> set xs)"
| "py_in k v = Inl TypeError"

text \<open>\<^verbatim>\<open>x[key]\<close> with a string key.\<close>

fun py_getitem :: "json \<Rightarrow> string \<Rightarrow> py_exc + json" where
  "py_getitem (JObj kvs) k = (case map_of kvs k of None \<Rightarrow> Inl KeyError | Some v \<Rightarrow> Inr v)"
| "py_getitem v k = Inl TypeError"

text \<open>\<^verbatim>\<open>d[key] = value\<close>.\<close>

definition dict_set :: "dict \<Rightarrow> string \<Rightarrow> json \<Rightarrow> dict" where
  "dict_set d k v = (k, v) # filter (\<lambda>kv. fst kv \<noteq> k) d"

subsection \<open>Session state\<close>

text \<open>
  The messages sent to the client: \<open>CAudio data mimeType\<close>, \<open>CText text\<close>,
  \<open>CStatus status\<close> (the accompanying text is left out) and \<open>CError e\<close> for
  \<^verbatim>\<open>{"type": "error", "text": "Failed to connect to AI service: .."}\<close>.

  A session is one run of \<^verbatim>\<open>websocket_endpoint\<close>: the connection, the messages sent
  to the client so far, whether the client channel accepts messages, which pumps have
  returned, the keys of the registry \<^verbatim>\<open>connections\<close>, and whether the handler has
  returned. The entry under the session's own client id is taken to be its own
  connection.
\<close>

datatype client_msg = CAudio json json | CText json | CStatus string | CError py_exc

fun is_error :: "client_msg \<Rightarrow> bool" where
  "is_error (CError e) = True"
| "is_error m = False"

record session =
  conn :: awaaz
  to_client :: "client_msg list"
  client_open :: bool
  client_pump_done :: bool
  service_pump_done :: bool
  registry :: "string set"
  finished :: bool

definition send_json :: "session \<Rightarrow> client_msg \<Rightarrow> py_exc + session" where
  "send_json s m =
     (if client_open s then Inr (s\<lparr> to_client := to_client s @ [m] \<rparr>) else Inl RuntimeError)"

definition set_playing :: "session \<Rightarrow> bool \<Rightarrow> session" where
  "set_playing s b = s\<lparr> conn := (conn s)\<lparr> is_playing := b \<rparr> \<rparr>"

subsection \<open>Service to client: \<^verbatim>\<open>receive_from_awaaz\<close>\<close>

text \<open>
  The handling of one message is the body of the \<^verbatim>\<open>try\<close> inside the loop. It ends
  normally (\<open>Next\<close>), raises (\<open>Raised\<close>: the exception is logged and the loop goes on) or
  returns from the pump (\<open>Return\<close>: a message could not be sent to the client).
  In the source the body of that \<^verbatim>\<open>try\<close> (line 554) and its \<^verbatim>\<open>except\<close>
  (line 677) are indented one level too little; the model follows the structure the
  comments state: one \<^verbatim>\<open>try\<close> per message, whose handler continues the loop.
\<close>

datatype ctl = Next | Raised py_exc | Return

text \<open>The loop over \<^verbatim>\<open>model_turn["parts"]\<close> (lines 576-617).\<close>

fun process_parts :: "session \<Rightarrow> json list \<Rightarrow> ctl \<times> session" where
  "process_parts s [] = (Next, s)"
| "process_parts s (part # rest) =
     (case part of
        JObj p \<Rightarrow>
          if has_key p ''inlineData'' then
            (let s1 = set_playing s True in
             case dict_get p ''inlineData'' JNull of
               JObj inline_data \<Rightarrow>
                 (case map_of inline_data ''data'' of
                    None \<Rightarrow> (Raised KeyError, s1)
                  | Some audio_data_b64 \<Rightarrow>
                      (let mime_type = dict_get inline_data ''mimeType'' (JStr ''audio/opus'')
                       in if \<not> has_len audio_data_b64 then (Raised TypeError, s1)
                          else
                            (case send_json s1 (CAudio audio_data_b64 mime_type) of
                               Inl e \<Rightarrow> (Return, s1)
                             | Inr s2 \<Rightarrow> process_parts s2 rest)))
             | other \<Rightarrow> (Raised TypeError, s1))
          else if has_key p ''text'' then
            (case send_json s (CText (dict_get p ''text'' JNull)) of
               Inl e \<Rightarrow> (Return, s)
             | Inr s2 \<Rightarrow> process_parts s2 rest)
          else process_parts s rest
      | other \<Rightarrow> (Raised AttributeError, s))"

text \<open>The branch \<^verbatim>\<open>"serverContent" in response\<close> (lines 564-637).\<close>

definition model_turn_parts :: "session \<Rightarrow> dict \<Rightarrow> ctl \<times> session" where
  "model_turn_parts s server_content =
     (if has_key server_content ''modelTurn'' then
        (case dict_get server_content ''modelTurn'' JNull of
           JObj model_turn \<Rightarrow>
             if has_key model_turn ''parts'' then
               (let parts = dict_get model_turn ''parts'' JNull
                in if \<not> has_len parts then (Raised TypeError, s)
                   else (case py_iter parts of
                           Inl e \<Rightarrow> (Raised e, s)
                         | Inr ps \<Rightarrow> process_parts s ps))
             else (Next, s)
         | other \<Rightarrow> (Raised AttributeError, s))
      else (Next, s))"

definition handle_server_content :: "session \<Rightarrow> json \<Rightarrow> ctl \<times> session" where
  "handle_server_content s sc =
     (case sc of
        JObj server_content \<Rightarrow>
          (case model_turn_parts s server_content of
             (Next, s1) \<Rightarrow>
               if truthy (dict_get server_content ''turnComplete'' JNull) then
                 (let s2 = set_playing s1 False
                  in case send_json s2 (CStatus ''listening'') of
                       Inl e \<Rightarrow> (Return, s2)
                     | Inr s3 \<Rightarrow> (Next, s3))
               else (Next, s1)
           | (c, s1) \<Rightarrow> (c, s1))
      | other \<Rightarrow> (Raised AttributeError, s))"

text \<open>The branch for responses with \<^verbatim>\<open>candidates\<close> (lines 646-673): a failed send to
  the client is logged there and the loop goes on.\<close>

fun candidate_parts :: "session \<Rightarrow> json list \<Rightarrow> ctl \<times> session" where
  "candidate_parts s [] = (Next, s)"
| "candidate_parts s (part # rest) =
     (case py_in ''inlineData'' part of
        Inl e \<Rightarrow> (Raised e, s)
      | Inr found \<Rightarrow>
          if \<not> found then candidate_parts s rest
          else
            (let s1 = set_playing s True in
             case py_getitem part ''inlineData'' of
               Inl e \<Rightarrow> (Raised e, s1)
             | Inr inline_data \<Rightarrow>
                 (case py_getitem inline_data ''data'' of
                    Inl e \<Rightarrow> (Raised e, s1)
                  | Inr audio_data_b64 \<Rightarrow>
                      (case inline_data of
                         JObj idict \<Rightarrow>
                           (case send_json s1
                                   (CAudio audio_data_b64
                                      (dict_get idict ''mimeType'' (JStr ''audio/opus''))) of
                              Inl e \<Rightarrow> candidate_parts s1 rest
                            | Inr s2 \<Rightarrow> candidate_parts s2 rest)
                       | other \<Rightarrow> (Raised AttributeError, s1)))))"

fun process_candidates :: "session \<Rightarrow> json list \<Rightarrow> ctl \<times> session" where
  "process_candidates s [] = (Next, s)"
| "process_candidates s (candidate # rest) =
     (case py_in ''content'' candidate of
        Inl e \<Rightarrow> (Raised e, s)
      | Inr has_content \<Rightarrow>
          if \<not> has_content then process_candidates s rest
          else
            (case py_getitem candidate ''content'' of
               Inl e \<Rightarrow> (Raised e, s)
             | Inr content \<Rightarrow>
                 (case py_in ''parts'' content of
                    Inl e \<Rightarrow> (Raised e, s)
                  | Inr has_parts \<Rightarrow>
                      if \<not> has_parts then process_candidates s rest
                      else
                        (case py_getitem content ''parts'' of
                           Inl e \<Rightarrow> (Raised e, s)
                         | Inr parts \<Rightarrow>
                             (case py_iter parts of
                                Inl e \<Rightarrow> (Raised e, s)
                              | Inr ps \<Rightarrow>
                                  (case candidate_parts s ps of
                                     (Next, s1) \<Rightarrow> process_candidates s1 rest
                                   | (c, s1) \<Rightarrow> (c, s1)))))))"

definition handle_response :: "session \<Rightarrow> json \<Rightarrow> ctl \<times> session" where
  "handle_response s response =
     (case response of
        JObj resp \<Rightarrow>
          if has_key resp ''serverContent'' then
            handle_server_content s (dict_get resp ''serverContent'' JNull)
          else if has_key resp ''turnComplete'' then (Next, set_playing s False)
          else if has_key resp ''error'' then (Next, s)
          else if has_key resp ''candidates'' then
            (case py_iter (dict_get resp ''candidates'' (JArr [])) of
               Inl e \<Rightarrow> (Raised e, s)
             | Inr candidates \<Rightarrow> process_candidates s candidates)
          else (Next, s)
      | other \<Rightarrow> (Raised AttributeError, s))"

text \<open>
  What the pump reads from the service channel: a message (\<open>None\<close> when it is not JSON),
  the normal end of the stream, or its failure. One step of the loop
  \<^verbatim>\<open>async for msg in awaaz.ws\<close>; when the stream ends either way the pump returns,
  and the channel is closed from then on.
\<close>

datatype svc_event = SvcMessage "json option" | SvcClosedOK | SvcClosedError

definition service_gone :: "session \<Rightarrow> session" where
  "service_gone s = s\<lparr> conn := (conn s)\<lparr> ws := WsClosed \<rparr>, service_pump_done := True \<rparr>"

fun service_step :: "session \<Rightarrow> svc_event \<Rightarrow> session" where
  "service_step s SvcClosedOK = service_gone s"
| "service_step s SvcClosedError = service_gone s"
| "service_step s (SvcMessage m) =
     (if \<not> running (conn s) then s\<lparr> service_pump_done := True \<rparr>
      else case m of
        None \<Rightarrow> s
      | Some response \<Rightarrow>
          (case handle_response s response of
             (Return, s1) \<Rightarrow> s1\<lparr> service_pump_done := True \<rparr>
           | (c, s1) \<Rightarrow> s1))"

subsection \<open>Client to service: \<^verbatim>\<open>receive_from_client\<close>\<close>

text \<open>
  What the pump reads from the client channel, by the branch of the loop it takes: the
  disconnect message; an audio message with its payload and declared rate (44100 when
  absent); a message of another type; a message that is not JSON or lacks a key (logged,
  the loop goes on); an exception of \<^verbatim>\<open>websocket.receive\<close>, whose text mentions
  \<^verbatim>\<open>disconnect\<close> or \<^verbatim>\<open>closed\<close> (the pump returns) or not (the loop goes on).
  After the disconnect message the client channel accepts nothing more.
\<close>

datatype client_event =
    Disconnect | Audio string "int option" | Unknown | Malformed | ReceiveError bool

fun client_step :: "libs \<Rightarrow> session \<Rightarrow> client_event \<Rightarrow> session" where
  "client_step L s Disconnect = s\<lparr> client_open := False, client_pump_done := True \<rparr>"
| "client_step L s (Audio audio_data r) =
     (let sample_rate = (case r of None \<Rightarrow> 44100 | Some n \<Rightarrow> n)
      in s\<lparr> conn := fst (send_audio L (conn s) audio_data sample_rate) \<rparr>)"
| "client_step L s Unknown = s"
| "client_step L s Malformed = s"
| "client_step L s (ReceiveError mentions_close) =
     (if mentions_close then s\<lparr> client_pump_done := True \<rparr> else s)"

subsection \<open>Connecting, closing and the endpoint\<close>

text \<open>
  The network's part in \<^verbatim>\<open>connect\<close>: whether the socket opens, whether the setup
  message can be sent, and what the wait for the setup response gives. The result of
  \<open>connect\<close> is the exception it raises, if any, and the connection.
\<close>

datatype recv_outcome = Received | TimedOut | RecvFailed

record net =
  connect_ok :: bool
  setup_send_ok :: bool
  setup_recv :: recv_outcome

text \<open>\<^verbatim>\<open>x[:100]\<close> is defined on strings and lists.\<close>

fun sliceable :: "json \<Rightarrow> bool" where
  "sliceable (JStr s) = True"
| "sliceable (JArr xs) = True"
| "sliceable v = False"

definition connect :: "net \<Rightarrow> awaaz \<Rightarrow> py_exc option \<times> awaaz" where
  "connect n a =
     (if \<not> connect_ok n then (Some ConnectionClosed, a)
      else
        (let a1 = a\<lparr> ws := WsOpen \<rparr> in
         case config a1 of
           None \<Rightarrow> (Some ValueError, a1)
         | Some cfg \<Rightarrow>
             if cfg = [] then (Some ValueError, a1)
             else if truthy (dict_get cfg ''google_search'' (JBool False))
               then (Some NameError, a1)
             else if \<not> sliceable (dict_get cfg ''systemPrompt''
                                     (JStr ''You are a helpful assistant.''))
               then (Some TypeError, a1)
             else if \<not> setup_send_ok n then (Some ConnectionClosed, a1)
             else
               (let a2 = a1\<lparr> sent := sent a1 @
                           [Setup (dict_get cfg ''voice'' (JStr ''Puck''))
                              (dict_get cfg ''systemPrompt''
                                 (JStr ''You are a helpful assistant.''))] \<rparr>
                in case setup_recv n of
                     RecvFailed \<Rightarrow> (Some ConnectionClosed, a2)
                   | Received \<Rightarrow> (None, a2)
                   | TimedOut \<Rightarrow> (None, a2))))"

definition close :: "awaaz \<Rightarrow> awaaz" where
  "close a =
     a\<lparr> running := False,
        ws := (case ws a of NoSocket \<Rightarrow> NoSocket | WsOpen \<Rightarrow> WsClosed | WsClosed \<Rightarrow> WsClosed) \<rparr>"

text \<open>The two system prompts; only their opening sentences are kept.\<close>

definition study_prompt :: string where
  "study_prompt = ''You are Awaaz, a compassionate AI study companion specializing in voice journalling for academic wellbeing.''"

definition wellness_prompt :: string where
  "wellness_prompt = ''You are Awaaz, a compassionate AI wellness companion specializing in voice journalling for mental wellbeing.''"

text \<open>
  The two pumps run concurrently. A schedule is the list of what the pumps read, in the
  order in which they read it; each reading is handled to its end before the next. What
  is addressed to a pump that has returned is never read. The service pump returns at
  once when there is no socket.
\<close>

datatype event = FromClient client_event | FromService svc_event

fun step :: "libs \<Rightarrow> session \<Rightarrow> event \<Rightarrow> session" where
  "step L s (FromClient e) = (if client_pump_done s then s else client_step L s e)"
| "step L s (FromService e) = (if service_pump_done s then s else service_step s e)"

fun run_pumps :: "libs \<Rightarrow> session \<Rightarrow> event list \<Rightarrow> session" where
  "run_pumps L s [] = s"
| "run_pumps L s (ev # evs) =
     (if client_pump_done s \<and> service_pump_done s then s
      else run_pumps L (step L s ev) evs)"

definition start_pumps :: "session \<Rightarrow> session" where
  "start_pumps s =
     s\<lparr> client_pump_done := False, service_pump_done := (ws (conn s) = NoSocket) \<rparr>"

text \<open>The \<^verbatim>\<open>finally\<close> block of the endpoint.\<close>

definition cleanup :: "string \<Rightarrow> session \<Rightarrow> session" where
  "cleanup client_id s =
     (if client_id \<in> registry s
      then s\<lparr> conn := close (conn s), registry := registry s - {client_id}, finished := True \<rparr>
      else s\<lparr> finished := True \<rparr>)"

text \<open>
  The \<^verbatim>\<open>try\<close> block of the endpoint, from the first message (\<open>None\<close> when
  \<^verbatim>\<open>receive_json\<close> raises) on. The first component of the result tells whether the
  handler is still waiting for its pumps when the schedule ends.
\<close>

definition connect_failed :: "session \<Rightarrow> py_exc \<Rightarrow> bool \<times> session" where
  "connect_failed s e =
     (case send_json s (CError e) of Inl e' \<Rightarrow> (False, s) | Inr s1 \<Rightarrow> (False, s1))"

definition endpoint_body ::
  "libs \<Rightarrow> net \<Rightarrow> session \<Rightarrow> json option \<Rightarrow> event list \<Rightarrow> bool \<times> session" where
  "endpoint_body L n s0 first events =
     (case first of
        None \<Rightarrow> (False, s0)
      | Some (JObj config_data) \<Rightarrow>
          if dict_get config_data ''type'' JNull \<noteq> JStr ''config'' then (False, s0)
          else
            (case dict_get config_data ''config'' (JObj []) of
               JObj config0 \<Rightarrow>
                 (let mode = dict_get config0 ''mode'' (JStr ''wellness'');
                      cfg = dict_set config0 ''systemPrompt''
                              (JStr (if mode = JStr ''study'' then study_prompt
                                     else wellness_prompt));
                      s1 = s0\<lparr> conn := set_config (conn s0) cfg \<rparr>
                  in case send_json s1 (CStatus ''config_received'') of
                       Inl e \<Rightarrow> (False, s1)
                     | Inr s2 \<Rightarrow>
                         (case connect n (conn s2) of
                            (Some e, a) \<Rightarrow> connect_failed (s2\<lparr> conn := a \<rparr>) e
                          | (None, a) \<Rightarrow>
                              (case send_json (s2\<lparr> conn := a \<rparr>) (CStatus ''connected'') of
                                 Inl e \<Rightarrow> connect_failed (s2\<lparr> conn := a \<rparr>) e
                               | Inr s3 \<Rightarrow>
                                   (let s4 = run_pumps L (start_pumps s3) events
                                    in (\<not> (client_pump_done s4 \<and> service_pump_done s4), s4)))))
             | other \<Rightarrow> (False, s0))
      | Some other \<Rightarrow> (False, s0))"

definition websocket_endpoint ::
  "libs \<Rightarrow> string \<Rightarrow> py_exc + scorer \<Rightarrow> net \<Rightarrow> bool \<Rightarrow> string set \<Rightarrow>
   json option \<Rightarrow> event list \<Rightarrow> session" where
  "websocket_endpoint L client_id loaded n client_ok connections first events =
     (let s0 = \<lparr> conn = AwaazConnection_init loaded, to_client = [], client_open = client_ok,
                 client_pump_done = False, service_pump_done = False,
                 registry = insert client_id connections, finished = False \<rparr>
      in case endpoint_body L n s0 first events of
           (True, s) \<Rightarrow> s
         | (False, s) \<Rightarrow> cleanup client_id s)"

subsection \<open>Service messages\<close>

text \<open>The shapes of the service's messages: one audio payload (with or without a MIME
  type), one text payload, and the turn-complete signal.\<close>

definition audio_payload :: "string \<Rightarrow> string option \<Rightarrow> json" where
  "audio_payload d mime =
     JObj [(''serverContent'', JObj [(''modelTurn'', JObj [(''parts'',
       JArr [JObj [(''inlineData'',
         JObj ((''data'', JStr d) #
               (case mime of None \<Rightarrow> [] | Some m \<Rightarrow> [(''mimeType'', JStr m)])))]])])])]"

definition text_payload :: "string \<Rightarrow> json" where
  "text_payload t =
     JObj [(''serverContent'', JObj [(''modelTurn'', JObj [(''parts'',
       JArr [JObj [(''text'', JStr t)]])])])]"

definition turn_complete :: json where
  "turn_complete = JObj [(''serverContent'', JObj [(''turnComplete'', JBool True)])]"

text \<open>The turn-complete signal at the top level of a response, outside
  \<^verbatim>\<open>serverContent\<close> (lines 641-643).\<close>

definition turn_complete_direct :: json where
  "turn_complete_direct = JObj [(''turnComplete'', JBool True)]"

definition mime_of :: "string option \<Rightarrow> json" where
  "mime_of mime = (case mime of None \<Rightarrow> JStr ''audio/opus'' | Some m \<Rightarrow> JStr m)"

definition service_run :: "session \<Rightarrow> json list \<Rightarrow> session" where
  "service_run s msgs = foldl service_step s (map (\<lambda>m. SvcMessage (Some m)) msgs)"

section \<open>Example states\<close>

text \<open>
  A connection as it is once the session is set up: constructed with a classifier that
  loaded, configured with \<open>cfg\<close>, and with the channel to the service open.
\<close>

definition example_conn :: "scorer \<Rightarrow> dict \<Rightarrow> awaaz" where
  "example_conn score cfg =
     (set_config (AwaazConnection_init (Inr score)) cfg)\<lparr> ws := WsOpen \<rparr>"

text \<open>
  A network on which the connection to the service succeeds, the first message of a
  client with its configuration, and the session of client \<open>client-1\<close> once it is set up
  and both pumps wait for their first message.
\<close>

definition ok_net :: net where
  "ok_net = \<lparr> connect_ok = True, setup_send_ok = True, setup_recv = Received \<rparr>"

definition config_message :: "dict \<Rightarrow> json" where
  "config_message cfg = JObj [(''type'', JStr ''config''), (''config'', JObj cfg)]"

definition live_session :: "scorer \<Rightarrow> dict \<Rightarrow> event list \<Rightarrow> session" where
  "live_session score cfg events =
     websocket_endpoint ref_libs ''client-1'' (Inr score) ok_net True {}
       (Some (config_message cfg)) events"

section \<open>Properties\<close>

subsection \<open>Auxiliary facts\<close>

lemma ref_libs_contract: "resample_contract ref_libs"
  by (auto simp: resample_contract_def ref_libs_def hold_resample_def)

lemma fit_window_length: "length (fit_window xs) = 512"
  by (simp add: fit_window_def Let_def)

lemma send_audio_sent_cases:
  "fst (send_audio L a audio_data sample_rate) = a \<or>
   (\<exists>cfg audio_bytes m. config a = Some cfg \<and> should_process a cfg \<and> ws a = WsOpen \<and>
      b64decode L audio_data = Inr audio_bytes \<and> audio_bytes \<noteq> [] \<and> even (length audio_bytes) \<and>
      realtime_input L (fst (apply_vad L a audio_data audio_bytes sample_rate)) audio_bytes sample_rate = Inr m \<and>
      fst (send_audio L a audio_data sample_rate) = a\<lparr> sent := sent a @ [m] \<rparr>)"
  by (auto simp: send_audio_def frombuffer_int16_def ws_send_def
           split: sum.splits prod.splits option.splits ws_state.splits)

lemma example_conn_simps:
  "config (example_conn score cfg) = Some cfg"
  "ws (example_conn score cfg) = WsOpen"
  "is_playing (example_conn score cfg) = False"
  "sent (example_conn score cfg) = []"
  "vad_enabled (example_conn score cfg) = dict_get cfg ''vad_enabled'' (JBool True)"
  by (simp_all add: example_conn_def set_config_def AwaazConnection_init_def)

lemma decode_two_samples: "b64decode ref_libs ''AEAAQA=='' = Inr [0, 64, 0, 64]"
  by code_simp

lemma resample_two_samples:
  "resample_audio ref_libs (to_float (pairs_int16 [0, 64, 0, 64])) 16000 24000 = Inr [1/2, 1/2, 1/2]"
  by code_simp

lemma send_two_samples_16k:
  "sent (fst (send_audio ref_libs (example_conn (\<lambda>w. Inr 1) [(''allow_interruptions'', JBool False)])
      ''AEAAQA=='' 16000)) = [RealtimeInput ''AEAAQABA'' 24000]"
  by code_simp

lemma send_three_samples_44k:
  "sent (fst (send_audio ref_libs (example_conn (\<lambda>w. Inr 1) [(''allow_interruptions'', JBool False)])
      ''AEAAQABA'' 44100)) = [RealtimeInput ''AEAAQABA'' 44100]"
  by code_simp

lemma audio_step:
  assumes "running (conn s)" "client_open s"
  shows "service_step s (SvcMessage (Some (audio_payload d mime)))
           = (set_playing s True)\<lparr> to_client := to_client s @ [CAudio (JStr d) (mime_of mime)] \<rparr>"
  using assms
  by (cases mime)
     (simp_all add: audio_payload_def handle_response_def handle_server_content_def
        model_turn_parts_def has_key_def dict_get_def send_json_def set_playing_def mime_of_def)

lemma text_step:
  assumes "running (conn s)" "client_open s"
  shows "service_step s (SvcMessage (Some (text_payload t)))
           = s\<lparr> to_client := to_client s @ [CText (JStr t)] \<rparr>"
  using assms
  by (simp add: text_payload_def handle_response_def handle_server_content_def
        model_turn_parts_def has_key_def dict_get_def send_json_def)

lemma turn_complete_step:
  assumes "running (conn s)" "client_open s"
  shows "service_step s (SvcMessage (Some turn_complete))
           = (set_playing s False)\<lparr> to_client := to_client s @ [CStatus ''listening''] \<rparr>"
  using assms
  by (simp add: turn_complete_def handle_response_def handle_server_content_def
        model_turn_parts_def has_key_def dict_get_def send_json_def set_playing_def)

lemma texts_run:
  assumes "running (conn s)" "client_open s"
  shows "service_run s (map text_payload ts)
           = s\<lparr> to_client := to_client s @ map (\<lambda>t. CText (JStr t)) ts \<rparr>"
  using assms
proof (induction ts arbitrary: s)
  case Nil
  then show ?case by (simp add: service_run_def)
next
  case (Cons t ts)
  let ?s1 = "s\<lparr> to_client := to_client s @ [CText (JStr t)] \<rparr>"
  have "service_run s (map text_payload (t # ts)) = service_run ?s1 (map text_payload ts)"
    using Cons.prems by (simp add: service_run_def text_step del: service_step.simps)
  also have "\<dots> = ?s1\<lparr> to_client := to_client ?s1 @ map (\<lambda>t. CText (JStr t)) ts \<rparr>"
    using Cons.prems by (intro Cons.IH) simp_all
  finally show ?case by simp
qed

lemma service_run_append:
  "service_run s (xs @ ys) = service_run (service_run s xs) ys"
  by (simp add: service_run_def)

lemma service_run_Cons:
  "service_run s (x # xs) = service_run (service_step s (SvcMessage (Some x))) xs"
  by (simp add: service_run_def)

lemma live_session_idle:
  "running (conn (live_session (\<lambda>w. Inr 1) [(''allow_interruptions'', JBool False)] []))"
  "client_open (live_session (\<lambda>w. Inr 1) [(''allow_interruptions'', JBool False)] [])"
  "\<not> is_playing (conn (live_session (\<lambda>w. Inr 1) [(''allow_interruptions'', JBool False)] []))"
  "to_client (live_session (\<lambda>w. Inr 1) [(''allow_interruptions'', JBool False)] [])
     = [CStatus ''config_received'', CStatus ''connected'']"
  by code_simp+

lemma connect_net_failure:
  assumes "\<not> connect_ok n \<or> \<not> setup_send_ok n \<or> setup_recv n = RecvFailed"
  shows "\<exists>e a'. connect n a = (Some e, a') \<and> ws a' = (if connect_ok n then WsOpen else ws a) \<and>
           is_playing a' = is_playing a \<and> running a' = running a \<and>
           filter is_realtime_input (sent a') = filter is_realtime_input (sent a)"
  using assms
  by (cases "setup_recv n")
     (auto simp: connect_def Let_def split: option.splits)

lemma double_bound_eq: "double_bound = 2 ^ 1024 - 2 ^ 970"
  by (simp add: double_bound_def)

lemma exact_rms_gt_sqrt:
  assumes "0 \<le> c"
  shows "exact_rms_gt xs c \<longleftrightarrow> sqrt (mean_square xs) > c"
proof -
  have "c < sqrt (mean_square xs) \<longleftrightarrow> sqrt (c * c) < sqrt (mean_square xs)"
    using assms by simp
  also have "\<dots> \<longleftrightarrow> c * c < mean_square xs"
    by (rule real_sqrt_less_iff)
  finally show ?thesis by (simp add: exact_rms_gt_def)
qed

lemma fit_window_short:
  assumes "length xs < 512"
  shows "take (length xs) (fit_window xs) = xs"
    and "drop (length xs) (fit_window xs) = replicate (512 - length xs) 0"
  using assms by (simp_all add: fit_window_def Let_def)

lemma fit_window_long:
  assumes l: "length xs > 512"
  shows "\<exists>front rear. xs = front @ fit_window xs @ rear \<and>
           length front = (length xs - 512) div 2 \<and>
           (length rear = length front \<or> length rear = length front + 1)"
proof -
  define s where "s = (length xs - 512) div 2"
  have w: "fit_window xs = take 512 (drop s xs)"
    using l by (simp add: fit_window_def Let_def s_def)
  have "xs = take s xs @ take 512 (drop s xs) @ drop 512 (drop s xs)"
    by (simp only: append_take_drop_id)
  moreover have "length (take s xs) = s" using l by (simp add: s_def)
  moreover have "length (drop 512 (drop s xs)) = s \<or> length (drop 512 (drop s xs)) = s + 1"
    using l by (simp add: s_def) presburger
  ultimately show ?thesis
    unfolding w s_def [symmetric] by metis
qed

lemma fit_window_exact: "length xs = 512 \<Longrightarrow> fit_window xs = xs"
  by (simp add: fit_window_def Let_def)

lemma is_speech_scores_window:
  assumes "is_initialized v" "model v = Some score" "target_sample_rate v = Some target"
      and "frombuffer_int16 audio_data = Inr audio_np" "audio_np \<noteq> []"
      and "(if sample_rate \<noteq> target
            then resample_audio L (to_float audio_np) sample_rate target
            else Inr (to_float audio_np)) = Inr xs"
  shows "snd (is_speech L v audio_data sample_rate) = [fit_window xs]"
proof -
  have "snd (is_speech_try L score (Some target) audio_data sample_rate) = [fit_window xs]"
    using assms(4-6)
    by (cases "score (fit_window xs)") (simp_all add: is_speech_try_def Let_def)
  then show ?thesis
    using assms(1-3)
    by (cases "is_speech_try L score (Some target) audio_data sample_rate")
       (auto simp: is_speech_def split: sum.splits)
qed

lemma pairs_int16_replicate:
  "pairs_int16 (concat (replicate n [0, 64])) = replicate n 16384"
  by (induction n) simp_all

lemma to_float_replicate: "to_float (replicate n 16384) = replicate n (1/2)"
  by (simp add: to_float_def)

lemma frombuffer_long:
  "frombuffer_int16 (concat (replicate 515 [0, 64])) = Inr (replicate 515 16384)"
  by (simp add: frombuffer_int16_def pairs_int16_replicate length_concat sum_list_replicate)

lemma frombuffer_short: "frombuffer_int16 [0, 64] = Inr [16384]"
  by (simp add: frombuffer_int16_def)

lemma ref_ratio_16_24:
  "fl64 ref_libs (real_of_int 24000 / real_of_int 16000) = Some (3/2)"
  by (simp add: ref_libs_def exact_fl64_def double_bound_def)

lemma ref_product_3: "fl64 ref_libs (real (length [1/2, 1/4, 0::real]) * (3/2)) = Some (9/2)"
  by (simp add: ref_libs_def exact_fl64_def double_bound_def)





lemma decode_empty: "b64decode ref_libs '''' = Inr []"
  by code_simp

lemma gate_two_samples_8k:
  "fst (apply_vad ref_libs (example_conn (\<lambda>w. Inr 0) [(''allow_interruptions'', JBool False)])
      ''AEAAQA=='' [0, 64, 0, 64] 8000) = ''AAAAAA==''"
  by code_simp

lemma turn_complete_direct_step:
  assumes "running (conn s)"
  shows "service_step s (SvcMessage (Some turn_complete_direct)) = set_playing s False"
  using assms
  by (simp add: turn_complete_direct_def handle_response_def has_key_def)

subsection \<open>Resampler\<close>

text \<open>
  Claim C7, as amended. With equal rates \<open>resample_audio\<close> returns its input. With
  different rates it returns \<open>int(len(samples) * (target_rate / original_rate))\<close>
  samples, the product truncated towards zero and not rounded to the nearest integer
  (the quotient and the product being within the doubles, and the library resampler
  being asked for at least one sample of a non-empty signal).
\<close>

theorem resample_audio_length:
  assumes "resample_contract L" "audio_data \<noteq> []"
  shows "(original_rate = target_rate \<longrightarrow>
            resample_audio L audio_data original_rate target_rate = Inr audio_data) \<and>
         (original_rate \<noteq> target_rate \<and> original_rate \<noteq> 0 \<and>
          fl64 L (real_of_int target_rate / real_of_int original_rate) = Some ratio \<and>
          fl64 L (real (length audio_data) * ratio) = Some product \<and>
          1 \<le> py_int product \<longrightarrow>
            (\<exists>ys. resample_audio L audio_data original_rate target_rate = Inr ys \<and>
                  int (length ys) = py_int product))"
  using assms
  by (auto simp: resample_audio_def resample_contract_def new_length_def)

theorem resample_audio_length_witness:
  "resample_contract ref_libs \<and> [1/2, 1/4, 0::real] \<noteq> [] \<and>
   resample_audio ref_libs [1/2, 1/4, 0] 44100 44100 = Inr [1/2, 1/4, 0] \<and>
   (16000::int) \<noteq> 24000 \<and> (16000::int) \<noteq> 0 \<and>
   fl64 ref_libs (real_of_int 24000 / real_of_int 16000) = Some (3/2) \<and>
   fl64 ref_libs (real (length [1/2, 1/4, 0::real]) * (3/2)) = Some (9/2) \<and>
   py_int (9/2) = 4 \<and>
   (\<exists>ys. resample_audio ref_libs [1/2, 1/4, 0] 16000 24000 = Inr ys \<and> int (length ys) = 4)"
proof -
  have c: "resample_contract ref_libs" by (rule ref_libs_contract)
  have n: "[1/2, 1/4, 0::real] \<noteq> []" by simp
  have p: "py_int (9/2) = 4"
    by (simp add: py_int_def)
  show ?thesis
    using resample_audio_length [OF c n, of 44100 44100]
          resample_audio_length [OF c n, of 16000 24000 "3/2" "9/2"]
          c ref_ratio_16_24 ref_product_3 p
    by simp
qed

text \<open>
  The claim as stated asks for \<open>round(len * toRate / fromRate)\<close> samples. One sample
  at 16000 Hz resampled to 24000 Hz: the ratio is 1.5, \<open>int(1.5) = 1\<close> sample is
  produced, and 1.5 rounds to 2.
\<close>

theorem resample_round_counterexample:
  "resample_audio ref_libs [1/2] 16000 24000 = Inr [1/2] \<and>
   length [1/2 :: real] \<noteq> nat (round (real (length [1/2 :: real]) * 24000 / 16000))"
  by (simp add: resample_audio_def new_length_def ref_libs_def exact_fl64_def double_bound_def py_int_def
        hold_resample_def round_def)




subsection \<open>Speech gate\<close>

text \<open>
  Claim C3. \<open>is_speech\<close> fails open: when the detector is not initialised or has no
  model the verdict is \<open>True\<close>, and when the classifier raises on the window it is
  given the verdict is \<open>True\<close>, whatever the frame holds.
\<close>

theorem is_speech_fail_open:
  "(\<not> is_initialized v \<or> model v = None \<longrightarrow>
      fst (is_speech L v audio_data sample_rate) = True) \<and>
   (is_initialized v \<and> model v = Some score \<and>
    snd (is_speech L v audio_data sample_rate) = [w] \<and> score w = Inl e \<longrightarrow>
      fst (is_speech L v audio_data sample_rate) = True)"
  by (auto simp: is_speech_def is_speech_try_def Let_def
           split: option.splits sum.splits if_splits prod.splits)

theorem is_speech_fail_open_witness:
  "\<not> is_initialized (VoiceActivityDetector_init (Inl RuntimeError)) \<and>
   fst (is_speech ref_libs (VoiceActivityDetector_init (Inl RuntimeError)) [0, 64] 16000) = True \<and>
   is_initialized (VoiceActivityDetector_init (Inr (\<lambda>w. Inl RuntimeError))) \<and>
   snd (is_speech ref_libs (VoiceActivityDetector_init (Inr (\<lambda>w. Inl RuntimeError))) [0, 64] 16000)
     = [fit_window [1/2]] \<and>
   fst (is_speech ref_libs (VoiceActivityDetector_init (Inr (\<lambda>w. Inl RuntimeError))) [0, 64] 16000) = True"
proof -
  have f: "to_float [16384] = [1/2]"
    by (simp add: to_float_def)
  have s: "snd (is_speech ref_libs (VoiceActivityDetector_init (Inr (\<lambda>w. Inl RuntimeError))) [0, 64] 16000)
     = [fit_window [1/2]]"
    by (simp add: is_speech_def is_speech_try_def VoiceActivityDetector_init_def
        frombuffer_int16_def f Let_def)
  show ?thesis
    using is_speech_fail_open [where v = "VoiceActivityDetector_init (Inl RuntimeError)"
             and L = ref_libs and audio_data = "[0, 64]" and sample_rate = 16000]
          is_speech_fail_open [where v = "VoiceActivityDetector_init (Inr (\<lambda>w. Inl RuntimeError))"
             and score = "\<lambda>w. Inl RuntimeError" and L = ref_libs and audio_data = "[0, 64]"
             and sample_rate = 16000 and w = "fit_window [1/2]" and e = RuntimeError] s
    by (simp add: VoiceActivityDetector_init_def)
qed

text \<open>
  Claim C8. For a detector with its model and a frame of at least one whole sample, let
  \<open>xs\<close> be the float frame presented to the classifier (the samples divided by 32768,
  resampled when the declared rate is not the detector's). The classifier is invoked on
  exactly one window \<open>w\<close> of 512 samples. If \<open>xs\<close> has \<open>N < 512\<close> samples, they
  occupy positions \<open>0..N-1\<close> of \<open>w\<close> and the rest is zero. If it has more, \<open>w\<close> is
  the contiguous part in the middle: \<open>(N - 512) div 2\<close> samples are dropped in front
  and as many behind, or one more behind when the excess is odd.
\<close>

theorem scored_window_shape:
  assumes "is_initialized v" "model v = Some score" "target_sample_rate v = Some target"
      and "frombuffer_int16 audio_data = Inr audio_np" "audio_np \<noteq> []"
      and "(if sample_rate \<noteq> target
            then resample_audio L (to_float audio_np) sample_rate target
            else Inr (to_float audio_np)) = Inr xs"
  shows "\<exists>w. snd (is_speech L v audio_data sample_rate) = [w] \<and> length w = 512 \<and>
           (length xs < 512 \<longrightarrow>
              take (length xs) w = xs \<and> drop (length xs) w = replicate (512 - length xs) 0) \<and>
           (length xs = 512 \<longrightarrow> w = xs) \<and>
           (length xs > 512 \<longrightarrow>
              (\<exists>front rear. xs = front @ w @ rear \<and>
                 length front = (length xs - 512) div 2 \<and>
                 (length rear = length front \<or> length rear = length front + 1)))"
  using is_speech_scores_window [OF assms] fit_window_length [of xs]
        fit_window_short [of xs] fit_window_exact [of xs] fit_window_long [of xs]
  by (intro exI [of _ "fit_window xs"]) simp

theorem scored_window_shape_witness:
  "is_initialized (VoiceActivityDetector_init (Inr (\<lambda>w. Inr 0))) \<and>
   frombuffer_int16 [0, 64] = Inr [16384] \<and>
   (\<exists>w. snd (is_speech ref_libs (VoiceActivityDetector_init (Inr (\<lambda>w. Inr 0))) [0, 64] 16000) = [w] \<and>
        length w = 512 \<and> take 1 w = [1/2] \<and> drop 1 w = replicate 511 0) \<and>
   frombuffer_int16 (concat (replicate 515 [0, 64])) = Inr (replicate 515 16384) \<and>
   (\<exists>w. snd (is_speech ref_libs (VoiceActivityDetector_init (Inr (\<lambda>w. Inr 0)))
              (concat (replicate 515 [0, 64])) 16000) = [w] \<and>
        length w = 512 \<and>
        (\<exists>front rear. replicate 515 (1/2) = front @ w @ rear \<and>
           length front = 1 \<and> length rear = 2))"
proof -
  let ?v = "VoiceActivityDetector_init (Inr (\<lambda>w. Inr 0))"
  let ?long = "replicate 515 (1/2 :: real)"
  have v: "is_initialized ?v" "model ?v = Some (\<lambda>w. Inr 0)" "target_sample_rate ?v = Some 16000"
    by (simp_all add: VoiceActivityDetector_init_def)
  have ne: "[16384 :: sample] \<noteq> []" "replicate 515 (16384 :: sample) \<noteq> []" by simp_all
  have fs: "(if (16000::int) \<noteq> 16000 then resample_audio ref_libs (to_float [16384]) 16000 16000
             else Inr (to_float [16384])) = Inr [1/2]"
    by (simp add: to_float_def)
  have fl: "(if (16000::int) \<noteq> 16000
             then resample_audio ref_libs (to_float (replicate 515 16384)) 16000 16000
             else Inr (to_float (replicate 515 16384))) = Inr ?long"
    by (simp add: to_float_replicate)
  note short = scored_window_shape [OF v frombuffer_short ne(1) fs]
  note long = scored_window_shape [OF v frombuffer_long ne(2) fl]
  from short obtain w1 where
    w1: "snd (is_speech ref_libs ?v [0, 64] 16000) = [w1]" "length w1 = 512"
        "take 1 w1 = [1/2]" "drop 1 w1 = replicate 511 0"
    by auto
  from long obtain w2 pre post where
    w2: "snd (is_speech ref_libs ?v (concat (replicate 515 [0, 64])) 16000) = [w2]"
        "length w2 = 512" and e: "?long = pre @ w2 @ post" and lf: "length pre = 1"
    by auto
  have "length ?long = length (pre @ w2 @ post)"
    using e by simp
  then have lb: "length post = 2"
    using lf w2(2) by simp
  have a: "\<exists>w. snd (is_speech ref_libs ?v [0, 64] 16000) = [w] \<and>
        length w = 512 \<and> take 1 w = [1/2] \<and> drop 1 w = replicate 511 0"
    using w1 by blast
  have b: "\<exists>w. snd (is_speech ref_libs ?v (concat (replicate 515 [0, 64])) 16000) = [w] \<and>
        length w = 512 \<and>
        (\<exists>front rear. ?long = front @ w @ rear \<and> length front = 1 \<and> length rear = 2)"
    using w2 e lf lb by blast
  show ?thesis
    using v(1) frombuffer_short frombuffer_long a b by blast
qed

subsection \<open>Client audio: admission, gating and egress\<close>

text \<open>
  Claim C1, as amended. While the assistant is speaking and interruptions are not allowed,
  \<open>send_audio\<close> transmits nothing for the frame. A frame that decodes to an empty
  buffer is skipped. While the assistant is not speaking, or interruptions are allowed,
  a frame that decodes to a non-empty buffer of whole samples is transmitted as exactly
  one message (the channel being open): declared at a rate other than 16000 Hz, the
  message carries the gated payload and the declared rate; declared at 16000 Hz, it is
  one message tagged 24000 (the resampler returning), whose payload is not stated here.
\<close>

theorem send_audio_admission:
  assumes "config a = Some cfg"
  shows "(is_playing a \<and> \<not> truthy (dict_get cfg ''allow_interruptions'' (JBool False)) \<longrightarrow>
            sent (fst (send_audio L a audio_data sample_rate)) = sent a) \<and>
         (b64decode L audio_data = Inr [] \<longrightarrow>
            sent (fst (send_audio L a audio_data sample_rate)) = sent a) \<and>
         ((\<not> is_playing a \<or> truthy (dict_get cfg ''allow_interruptions'' (JBool False))) \<and>
          ws a = WsOpen \<and> b64decode L audio_data = Inr audio_bytes \<and>
          audio_bytes \<noteq> [] \<and> even (length audio_bytes) \<and> sample_rate \<noteq> 16000 \<longrightarrow>
            sent (fst (send_audio L a audio_data sample_rate))
              = sent a @ [RealtimeInput (fst (apply_vad L a audio_data audio_bytes sample_rate))
                            sample_rate]) \<and>
         ((\<not> is_playing a \<or> truthy (dict_get cfg ''allow_interruptions'' (JBool False))) \<and>
          ws a = WsOpen \<and> b64decode L audio_data = Inr audio_bytes \<and>
          audio_bytes \<noteq> [] \<and> even (length audio_bytes) \<and> sample_rate = 16000 \<and>
          (\<exists>ys. resample_audio L (to_float (pairs_int16 audio_bytes)) 16000 24000 = Inr ys) \<longrightarrow>
            (\<exists>d. sent (fst (send_audio L a audio_data sample_rate))
                    = sent a @ [RealtimeInput d 24000]))"
proof (intro conjI impI)
  assume "is_playing a \<and> \<not> truthy (dict_get cfg ''allow_interruptions'' (JBool False))"
  then have "\<not> should_process a cfg" by (simp add: should_process_def)
  then show "sent (fst (send_audio L a audio_data sample_rate)) = sent a"
    using assms by (simp add: send_audio_def split: sum.splits prod.splits)
next
  assume "b64decode L audio_data = Inr []"
  then show "sent (fst (send_audio L a audio_data sample_rate)) = sent a"
    by (simp add: send_audio_def)
next
  assume h: "(\<not> is_playing a \<or> truthy (dict_get cfg ''allow_interruptions'' (JBool False))) \<and>
          ws a = WsOpen \<and> b64decode L audio_data = Inr audio_bytes \<and>
          audio_bytes \<noteq> [] \<and> even (length audio_bytes) \<and> sample_rate \<noteq> 16000"
  then have sp: "should_process a cfg" by (auto simp: should_process_def)
  obtain d calls where v: "apply_vad L a audio_data audio_bytes sample_rate = (d, calls)"
    by (cases "apply_vad L a audio_data audio_bytes sample_rate")
  have m: "realtime_input L d audio_bytes sample_rate = Inr (RealtimeInput d sample_rate)"
    using h by (simp add: realtime_input_def)
  have "fst (send_audio L a audio_data sample_rate)
          = a\<lparr> sent := sent a @ [RealtimeInput d sample_rate] \<rparr>"
    using assms h sp v m by (simp add: send_audio_def frombuffer_int16_def ws_send_def)
  then show "sent (fst (send_audio L a audio_data sample_rate))
              = sent a @ [RealtimeInput (fst (apply_vad L a audio_data audio_bytes sample_rate))
                            sample_rate]"
    using v by simp
next
  assume h: "(\<not> is_playing a \<or> truthy (dict_get cfg ''allow_interruptions'' (JBool False))) \<and>
          ws a = WsOpen \<and> b64decode L audio_data = Inr audio_bytes \<and>
          audio_bytes \<noteq> [] \<and> even (length audio_bytes) \<and> sample_rate = 16000 \<and>
          (\<exists>ys. resample_audio L (to_float (pairs_int16 audio_bytes)) 16000 24000 = Inr ys)"
  then have sp: "should_process a cfg" by (auto simp: should_process_def)
  obtain d calls where v: "apply_vad L a audio_data audio_bytes sample_rate = (d, calls)"
    by (cases "apply_vad L a audio_data audio_bytes sample_rate")
  from h obtain ys where
    ys: "resample_audio L (to_float (pairs_int16 audio_bytes)) 16000 24000 = Inr ys" by blast
  have m: "realtime_input L d audio_bytes sample_rate
             = Inr (RealtimeInput (b64encode L (tobytes (map to_int16 ys))) 24000)"
    using h ys by (simp add: realtime_input_def frombuffer_int16_def)
  have "fst (send_audio L a audio_data sample_rate)
          = a\<lparr> sent := sent a @ [RealtimeInput (b64encode L (tobytes (map to_int16 ys))) 24000] \<rparr>"
    using assms h sp v m by (simp add: send_audio_def frombuffer_int16_def ws_send_def)
  then show "\<exists>d. sent (fst (send_audio L a audio_data sample_rate))
                    = sent a @ [RealtimeInput d 24000]"
    by simp
qed

theorem send_audio_admission_witness:
  "is_playing ((example_conn (\<lambda>w. Inr 0) [(''allow_interruptions'', JBool False)])\<lparr> is_playing := True \<rparr>) \<and>
   sent (fst (send_audio ref_libs
      ((example_conn (\<lambda>w. Inr 0) [(''allow_interruptions'', JBool False)])\<lparr> is_playing := True \<rparr>)
      ''AEAAQA=='' 16000)) = [] \<and>
   b64decode ref_libs '''' = Inr [] \<and>
   sent (fst (send_audio ref_libs
      (example_conn (\<lambda>w. Inr 0) [(''allow_interruptions'', JBool False)]) '''' 8000)) = [] \<and>
   b64decode ref_libs ''AEAAQA=='' = Inr [0, 64, 0, 64] \<and>
   sent (fst (send_audio ref_libs
      (example_conn (\<lambda>w. Inr 0) [(''allow_interruptions'', JBool False)]) ''AEAAQA=='' 8000))
     = [RealtimeInput ''AAAAAA=='' 8000] \<and>
   (\<exists>d. sent (fst (send_audio ref_libs
      (example_conn (\<lambda>w. Inr 0) [(''allow_interruptions'', JBool False)]) ''AEAAQA=='' 16000))
       = [RealtimeInput d 24000]) \<and>
   (\<exists>d. sent (fst (send_audio ref_libs
      ((example_conn (\<lambda>w. Inr 0) [(''allow_interruptions'', JBool True)])\<lparr> is_playing := True \<rparr>)
      ''AEAAQA=='' 16000)) = [RealtimeInput d 24000])"
proof -
  let ?no = "[(''allow_interruptions'', JBool False)]"
  let ?yes = "[(''allow_interruptions'', JBool True)]"
  let ?a = "example_conn (\<lambda>w. Inr 0) ?no"
  let ?b = "example_conn (\<lambda>w. Inr 0) ?yes"
  have r: "\<exists>ys. resample_audio ref_libs (to_float (pairs_int16 [0, 64, 0, 64])) 16000 24000 = Inr ys"
    using resample_two_samples by blast
  have 1: "sent (fst (send_audio ref_libs (?a\<lparr> is_playing := True \<rparr>) ''AEAAQA=='' 16000)) = []"
    using send_audio_admission [where a = "?a\<lparr> is_playing := True \<rparr>" and cfg = ?no
        and L = ref_libs and audio_data = "''AEAAQA==''" and sample_rate = 16000]
    by (simp add: example_conn_simps dict_get_def)
  have 2: "sent (fst (send_audio ref_libs ?a '''' 8000)) = []"
    using send_audio_admission [where a = ?a and cfg = ?no
        and L = ref_libs and audio_data = "''''" and sample_rate = 8000] decode_empty
    by (simp add: example_conn_simps)
  have 3: "sent (fst (send_audio ref_libs ?a ''AEAAQA=='' 8000)) = [RealtimeInput ''AAAAAA=='' 8000]"
    using send_audio_admission [where a = ?a and cfg = ?no
        and L = ref_libs and audio_data = "''AEAAQA==''" and sample_rate = 8000
        and audio_bytes = "[0, 64, 0, 64]"] decode_two_samples gate_two_samples_8k
    by (simp add: example_conn_simps)
  have 4: "\<exists>d. sent (fst (send_audio ref_libs ?a ''AEAAQA=='' 16000)) = [RealtimeInput d 24000]"
    using send_audio_admission [where a = ?a and cfg = ?no
        and L = ref_libs and audio_data = "''AEAAQA==''" and sample_rate = 16000
        and audio_bytes = "[0, 64, 0, 64]"] r decode_two_samples
    by (simp add: example_conn_simps)
  have 5: "\<exists>d. sent (fst (send_audio ref_libs (?b\<lparr> is_playing := True \<rparr>) ''AEAAQA=='' 16000))
             = [RealtimeInput d 24000]"
    using send_audio_admission [where a = "?b\<lparr> is_playing := True \<rparr>" and cfg = ?yes
        and L = ref_libs and audio_data = "''AEAAQA==''" and sample_rate = 16000
        and audio_bytes = "[0, 64, 0, 64]"] r decode_two_samples
    by (simp add: example_conn_simps dict_get_def)
  show ?thesis using 1 2 3 4 5 decode_two_samples decode_empty by simp
qed

text \<open>
  The claim as stated forwards every frame that arrives while the assistant is not
  speaking. An empty frame is skipped (lines 237-240): nothing is transmitted for it.
\<close>

theorem send_audio_empty_frame_counterexample:
  "\<not> is_playing (example_conn (\<lambda>w. Inr 1) [(''allow_interruptions'', JBool False)]) \<and>
   ws (example_conn (\<lambda>w. Inr 1) [(''allow_interruptions'', JBool False)]) = WsOpen \<and>
   b64decode ref_libs '''' = Inr [] \<and>
   sent (fst (send_audio ref_libs
      (example_conn (\<lambda>w. Inr 1) [(''allow_interruptions'', JBool False)]) '''' 16000)) = []"
  by code_simp

text \<open>
  Claim C2. The claim is evaluated at a 16000 Hz frame of two samples that the gate
  judges not to be speech. \<open>apply_vad\<close> replaces the payload by silence
  (\<open>AAAAAA==\<close>, four zero bytes), but the 16000 Hz branch of \<open>realtime_input\<close>
  rebuilds the payload from the original bytes: the message transmitted carries the
  resampled original audio, six bytes that are not zero. At 8000 Hz the same frame is
  transmitted as silence.
\<close>

theorem send_audio_silence_overwritten:
  "b64decode ref_libs ''AEAAQA=='' = Inr [0, 64, 0, 64] \<and>
   fst (is_speech ref_libs (vad (example_conn (\<lambda>w. Inr 0) [(''allow_interruptions'', JBool False)]))
      [0, 64, 0, 64] 16000) = False \<and>
   fst (apply_vad ref_libs (example_conn (\<lambda>w. Inr 0) [(''allow_interruptions'', JBool False)])
      ''AEAAQA=='' [0, 64, 0, 64] 16000) = ''AAAAAA=='' \<and>
   sent (fst (send_audio ref_libs (example_conn (\<lambda>w. Inr 0) [(''allow_interruptions'', JBool False)])
      ''AEAAQA=='' 16000)) = [RealtimeInput ''AEAAQABA'' 24000] \<and>
   b64decode ref_libs ''AEAAQABA'' = Inr [0, 64, 0, 64, 0, 64] \<and>
   sent (fst (send_audio ref_libs (example_conn (\<lambda>w. Inr 0) [(''allow_interruptions'', JBool False)])
      ''AEAAQA=='' 8000)) = [RealtimeInput ''AAAAAA=='' 8000]"
  by code_simp

text \<open>
  The two behaviours in general: at 16000 Hz the transmitted message does not depend on
  the gate at all, and at every other rate a frame judged not to be speech is transmitted
  as zero bytes of the same length.
\<close>

lemma send_audio_16k_ignores_gate:
  assumes "sent (fst (send_audio L a audio_data 16000)) = sent a @ [m]"
  shows "sent (fst (send_audio L (a\<lparr> vad_enabled := JBool False \<rparr>) audio_data 16000)) = sent a @ [m]"
  using assms
  by (auto simp: send_audio_def realtime_input_def should_process_def ws_send_def
           split: sum.splits prod.splits option.splits if_splits ws_state.splits)

lemma send_audio_silence_other_rates:
  assumes "config a = Some cfg" "should_process a cfg" "ws a = WsOpen"
      and "b64decode L audio_data = Inr audio_bytes" "audio_bytes \<noteq> []" "even (length audio_bytes)"
      and "truthy (vad_enabled a)" "\<not> fst (is_speech L (vad a) audio_bytes sample_rate)"
      and "sample_rate \<noteq> 16000"
  shows "sent (fst (send_audio L a audio_data sample_rate))
           = sent a @ [RealtimeInput (b64encode L (replicate (length audio_bytes) 0)) sample_rate]"
proof -
  obtain calls where "is_speech L (vad a) audio_bytes sample_rate = (False, calls)"
    using assms(8) by (cases "is_speech L (vad a) audio_bytes sample_rate") simp
  then show ?thesis
    using assms
    by (simp add: send_audio_def apply_vad_def realtime_input_def frombuffer_int16_def ws_send_def)
qed

text \<open>
  Claim C5, as amended. A transmitted frame that was declared at 16000 Hz is resampled to
  24000 Hz and tagged 24000; a transmitted frame declared at any other rate is not
  resampled: its message is tagged with the declared rate and carries the client's
  payload, or zero bytes of the same length.
\<close>

theorem send_audio_rate_tag:
  assumes "sent (fst (send_audio L a audio_data sample_rate)) = sent a @ [m]"
  shows "\<exists>audio_bytes. b64decode L audio_data = Inr audio_bytes \<and>
          (sample_rate = 16000 \<longrightarrow>
             rate m = 24000 \<and>
             (\<exists>ys. resample_audio L (to_float (pairs_int16 audio_bytes)) 16000 24000 = Inr ys \<and>
                   data m = b64encode L (tobytes (map to_int16 ys)))) \<and>
          (sample_rate \<noteq> 16000 \<longrightarrow>
             rate m = sample_rate \<and>
             (data m = audio_data \<or>
              data m = b64encode L (replicate (length audio_bytes) 0)))"
proof -
  from send_audio_sent_cases [of L a audio_data sample_rate]
  show ?thesis
  proof
    assume "fst (send_audio L a audio_data sample_rate) = a"
    with assms show ?thesis by simp
  next
    assume "\<exists>cfg audio_bytes m. config a = Some cfg \<and> should_process a cfg \<and> ws a = WsOpen \<and>
      b64decode L audio_data = Inr audio_bytes \<and> audio_bytes \<noteq> [] \<and> even (length audio_bytes) \<and>
      realtime_input L (fst (apply_vad L a audio_data audio_bytes sample_rate)) audio_bytes sample_rate = Inr m \<and>
      fst (send_audio L a audio_data sample_rate) = a\<lparr> sent := sent a @ [m] \<rparr>"
    then obtain audio_bytes m' where
      d: "b64decode L audio_data = Inr audio_bytes" and e: "even (length audio_bytes)" and
      r: "realtime_input L (fst (apply_vad L a audio_data audio_bytes sample_rate)) audio_bytes sample_rate = Inr m'" and
      s: "fst (send_audio L a audio_data sample_rate) = a\<lparr> sent := sent a @ [m'] \<rparr>"
      by blast
    have mm: "m' = m" using assms s by simp
    have v: "fst (apply_vad L a audio_data audio_bytes sample_rate) = audio_data \<or>
             fst (apply_vad L a audio_data audio_bytes sample_rate) = b64encode L (replicate (length audio_bytes) 0)"
      by (auto simp: apply_vad_def split: prod.splits)
    show ?thesis
      using d e r v unfolding mm
      by (intro exI [of _ audio_bytes])
         (auto simp: realtime_input_def frombuffer_int16_def split: if_splits sum.splits)
  qed
qed

theorem send_audio_rate_tag_witness:
  "sent (fst (send_audio ref_libs (example_conn (\<lambda>w. Inr 1) [(''allow_interruptions'', JBool False)])
      ''AEAAQA=='' 16000))
     = sent (example_conn (\<lambda>w. Inr 1) [(''allow_interruptions'', JBool False)])
       @ [RealtimeInput ''AEAAQABA'' 24000] \<and>
   (\<exists>audio_bytes. b64decode ref_libs ''AEAAQA=='' = Inr audio_bytes \<and>
      rate (RealtimeInput ''AEAAQABA'' 24000) = 24000 \<and>
      (\<exists>ys. resample_audio ref_libs (to_float (pairs_int16 audio_bytes)) 16000 24000 = Inr ys \<and>
            data (RealtimeInput ''AEAAQABA'' 24000) = b64encode ref_libs (tobytes (map to_int16 ys)))) \<and>
   sent (fst (send_audio ref_libs (example_conn (\<lambda>w. Inr 1) [(''allow_interruptions'', JBool False)])
      ''AEAAQABA'' 44100))
     = sent (example_conn (\<lambda>w. Inr 1) [(''allow_interruptions'', JBool False)])
       @ [RealtimeInput ''AEAAQABA'' 44100] \<and>
   (\<exists>audio_bytes. b64decode ref_libs ''AEAAQABA'' = Inr audio_bytes \<and>
      rate (RealtimeInput ''AEAAQABA'' 44100) = 44100 \<and>
      (data (RealtimeInput ''AEAAQABA'' 44100) = ''AEAAQABA'' \<or>
       data (RealtimeInput ''AEAAQABA'' 44100) = b64encode ref_libs (replicate (length audio_bytes) 0)))"
proof -
  let ?a = "example_conn (\<lambda>w. Inr 1) [(''allow_interruptions'', JBool False)]"
  have h1: "sent (fst (send_audio ref_libs ?a ''AEAAQA=='' 16000)) = sent ?a @ [RealtimeInput ''AEAAQABA'' 24000]"
    using send_two_samples_16k by (simp add: example_conn_simps)
  have h2: "sent (fst (send_audio ref_libs ?a ''AEAAQABA'' 44100)) = sent ?a @ [RealtimeInput ''AEAAQABA'' 44100]"
    using send_three_samples_44k by (simp add: example_conn_simps)
  show ?thesis
    using send_audio_rate_tag [OF h1] send_audio_rate_tag [OF h2] h1 h2
    by simp
qed

text \<open>
  The claim as stated resamples whatever the native rate is. A frame of three samples
  declared at 44100 Hz is transmitted unchanged and tagged 44100.
\<close>

theorem send_audio_native_rate_counterexample:
  "sent (fst (send_audio ref_libs (example_conn (\<lambda>w. Inr 1) [(''allow_interruptions'', JBool False)])
      ''AEAAQABA'' 44100)) = [RealtimeInput ''AEAAQABA'' 44100]"
  by code_simp

text \<open>
  Claim C6, as amended. Whether \<open>is_speech\<close> is invoked on a frame depends on the gate
  being enabled and on the frame alone, not on the admission test: with the gate
  disabled the classifier is never invoked, and with the gate enabled the classifier
  calls for a frame that decodes to a non-empty buffer of whole samples are exactly
  those of \<open>is_speech\<close> on that frame.
\<close>

theorem send_audio_classifier_calls:
  "(\<not> truthy (vad_enabled a) \<longrightarrow> snd (send_audio L a audio_data sample_rate) = []) \<and>
   (truthy (vad_enabled a) \<and> b64decode L audio_data = Inr audio_bytes \<and>
    audio_bytes \<noteq> [] \<and> even (length audio_bytes) \<longrightarrow>
      snd (send_audio L a audio_data sample_rate) = snd (is_speech L (vad a) audio_bytes sample_rate))"
  by (auto simp: send_audio_def apply_vad_def frombuffer_int16_def
           split: sum.splits prod.splits option.splits)

theorem send_audio_classifier_calls_witness:
  "\<not> truthy (vad_enabled (example_conn (\<lambda>w. Inr 0) [(''vad_enabled'', JBool False)])) \<and>
   snd (send_audio ref_libs (example_conn (\<lambda>w. Inr 0) [(''vad_enabled'', JBool False)])
      ''AEAAQA=='' 16000) = [] \<and>
   truthy (vad_enabled (example_conn (\<lambda>w. Inr 0) [(''allow_interruptions'', JBool False)])) \<and>
   b64decode ref_libs ''AEAAQA=='' = Inr [0, 64, 0, 64] \<and>
   snd (send_audio ref_libs (example_conn (\<lambda>w. Inr 0) [(''allow_interruptions'', JBool False)])
      ''AEAAQA=='' 16000)
     = snd (is_speech ref_libs (vad (example_conn (\<lambda>w. Inr 0) [(''allow_interruptions'', JBool False)]))
         [0, 64, 0, 64] 16000)"
proof -
  let ?off = "example_conn (\<lambda>w. Inr 0) [(''vad_enabled'', JBool False)]"
  let ?on = "example_conn (\<lambda>w. Inr 0) [(''allow_interruptions'', JBool False)]"
  have off: "\<not> truthy (vad_enabled ?off)"
    by (simp add: example_conn_simps dict_get_def)
  have on: "truthy (vad_enabled ?on)"
    by (simp add: example_conn_simps dict_get_def)
  show ?thesis
    using send_audio_classifier_calls [where a = ?off and L = ref_libs
            and audio_data = "''AEAAQA==''" and sample_rate = 16000]
          send_audio_classifier_calls [where a = ?on and L = ref_libs
            and audio_data = "''AEAAQA==''" and sample_rate = 16000 and audio_bytes = "[0, 64, 0, 64]"]
          off on decode_two_samples
    by simp
qed

text \<open>
  The claim as stated has the classifier never invoked on a frame that arrives while the
  assistant is speaking and interruptions are not allowed. Such a frame is scored (one
  window) and then dropped.
\<close>

theorem send_audio_vad_before_admission_counterexample:
  "is_playing ((example_conn (\<lambda>w. Inr 0) [(''allow_interruptions'', JBool False)])\<lparr> is_playing := True \<rparr>) \<and>
   \<not> should_process ((example_conn (\<lambda>w. Inr 0) [(''allow_interruptions'', JBool False)])\<lparr> is_playing := True \<rparr>)
        [(''allow_interruptions'', JBool False)] \<and>
   snd (send_audio ref_libs
      ((example_conn (\<lambda>w. Inr 0) [(''allow_interruptions'', JBool False)])\<lparr> is_playing := True \<rparr>)
      ''AEAAQA=='' 16000) = [fit_window [1/2, 1/2]] \<and>
   sent (fst (send_audio ref_libs
      ((example_conn (\<lambda>w. Inr 0) [(''allow_interruptions'', JBool False)])\<lparr> is_playing := True \<rparr>)
      ''AEAAQA=='' 16000)) = []"
  by code_simp

subsection \<open>Turn state\<close>

text \<open>
  Claim C4, as amended. In a session whose pump is running and whose client channel
  accepts messages, starting with \<open>is_playing\<close> false: after the message with one audio
  payload \<open>is_playing\<close> is true; it is still true after any number of messages with a
  text payload; after the turn-complete signal it is false. When the signal arrives
  inside \<^verbatim>\<open>serverContent\<close> the status \<open>listening\<close> is then sent to the client,
  after the audio and the texts in the order received; when it arrives at the top level
  of the response nothing is sent.
\<close>

theorem turn_state_sequence:
  assumes "running (conn s)" "client_open s" "\<not> is_playing (conn s)"
  shows "is_playing (conn (service_run s [audio_payload d mime])) \<and>
         is_playing (conn (service_run s (audio_payload d mime # map text_payload ts))) \<and>
         \<not> is_playing (conn (service_run s
              (audio_payload d mime # map text_payload ts @ [turn_complete]))) \<and>
         to_client (service_run s (audio_payload d mime # map text_payload ts @ [turn_complete]))
           = to_client s @ [CAudio (JStr d) (mime_of mime)] @ map (\<lambda>t. CText (JStr t)) ts
               @ [CStatus ''listening''] \<and>
         \<not> is_playing (conn (service_run s
              (audio_payload d mime # map text_payload ts @ [turn_complete_direct]))) \<and>
         to_client (service_run s
              (audio_payload d mime # map text_payload ts @ [turn_complete_direct]))
           = to_client s @ [CAudio (JStr d) (mime_of mime)] @ map (\<lambda>t. CText (JStr t)) ts"
proof -
  let ?s1 = "(set_playing s True)\<lparr> to_client := to_client s @ [CAudio (JStr d) (mime_of mime)] \<rparr>"
  let ?s2 = "?s1\<lparr> to_client := to_client ?s1 @ map (\<lambda>t. CText (JStr t)) ts \<rparr>"
  have r1: "running (conn ?s1)" "client_open ?s1"
    using assms by (simp_all add: set_playing_def)
  have a: "service_run s [audio_payload d mime] = ?s1"
    using assms by (simp add: service_run_Cons audio_step service_run_def del: service_step.simps)
  have b: "service_run s (audio_payload d mime # map text_payload ts) = ?s2"
    using assms r1 by (simp add: service_run_Cons audio_step texts_run del: service_step.simps)
  have r2: "running (conn ?s2)" "client_open ?s2"
    using r1 by simp_all
  have split: "service_run s (audio_payload d mime # map text_payload ts @ [x])
          = service_run ?s2 [x]" for x
    using b service_run_append [of s "audio_payload d mime # map text_payload ts" "[x]"]
    by simp
  have c: "service_run s (audio_payload d mime # map text_payload ts @ [turn_complete])
          = (set_playing ?s2 False)\<lparr> to_client := to_client ?s2 @ [CStatus ''listening''] \<rparr>"
    using r2 unfolding split
    by (simp add: service_run_Cons turn_complete_step service_run_def del: service_step.simps)
  have e: "service_run s (audio_payload d mime # map text_payload ts @ [turn_complete_direct])
          = set_playing ?s2 False"
    using r2 unfolding split
    by (simp add: service_run_Cons turn_complete_direct_step service_run_def
          del: service_step.simps)
  show ?thesis
    unfolding a b c e by (simp add: set_playing_def)
qed

theorem turn_state_sequence_witness:
  "running (conn (live_session (\<lambda>w. Inr 1) [(''allow_interruptions'', JBool False)] [])) \<and>
   client_open (live_session (\<lambda>w. Inr 1) [(''allow_interruptions'', JBool False)] []) \<and>
   \<not> is_playing (conn (live_session (\<lambda>w. Inr 1) [(''allow_interruptions'', JBool False)] [])) \<and>
   is_playing (conn (service_run
      (live_session (\<lambda>w. Inr 1) [(''allow_interruptions'', JBool False)] [])
      [audio_payload ''QUJD'' (Some ''audio/pcm;rate=24000'')])) \<and>
   is_playing (conn (service_run
      (live_session (\<lambda>w. Inr 1) [(''allow_interruptions'', JBool False)] [])
      (audio_payload ''QUJD'' (Some ''audio/pcm;rate=24000'') # map text_payload [''Hello'', ''there'']))) \<and>
   \<not> is_playing (conn (service_run
      (live_session (\<lambda>w. Inr 1) [(''allow_interruptions'', JBool False)] [])
      (audio_payload ''QUJD'' (Some ''audio/pcm;rate=24000'') # map text_payload [''Hello'', ''there'']
         @ [turn_complete]))) \<and>
   to_client (service_run
      (live_session (\<lambda>w. Inr 1) [(''allow_interruptions'', JBool False)] [])
      (audio_payload ''QUJD'' (Some ''audio/pcm;rate=24000'') # map text_payload [''Hello'', ''there'']
         @ [turn_complete]))
     = [CStatus ''config_received'', CStatus ''connected'',
        CAudio (JStr ''QUJD'') (JStr ''audio/pcm;rate=24000''),
        CText (JStr ''Hello''), CText (JStr ''there''), CStatus ''listening''] \<and>
   \<not> is_playing (conn (service_run
      (live_session (\<lambda>w. Inr 1) [(''allow_interruptions'', JBool False)] [])
      (audio_payload ''QUJD'' (Some ''audio/pcm;rate=24000'') # map text_payload [''Hello'', ''there'']
         @ [turn_complete_direct]))) \<and>
   to_client (service_run
      (live_session (\<lambda>w. Inr 1) [(''allow_interruptions'', JBool False)] [])
      (audio_payload ''QUJD'' (Some ''audio/pcm;rate=24000'') # map text_payload [''Hello'', ''there'']
         @ [turn_complete_direct]))
     = [CStatus ''config_received'', CStatus ''connected'',
        CAudio (JStr ''QUJD'') (JStr ''audio/pcm;rate=24000''),
        CText (JStr ''Hello''), CText (JStr ''there'')]"
  using turn_state_sequence [OF live_session_idle(1,2,3),
          of "''QUJD''" "Some ''audio/pcm;rate=24000''" "[''Hello'', ''there'']"]
        live_session_idle
  by (simp add: mime_of_def)

text \<open>
  The claim as stated has the notification follow every turn-complete signal. The
  signal at the top level of a response resets the flag and nothing is sent to the
  client.
\<close>

theorem turn_complete_direct_counterexample:
  "\<not> is_playing (conn (live_session (\<lambda>w. Inr 1) [(''allow_interruptions'', JBool False)] [])) \<and>
   is_playing (conn (service_run
      (live_session (\<lambda>w. Inr 1) [(''allow_interruptions'', JBool False)] [])
      [audio_payload ''QUJD'' None])) \<and>
   \<not> is_playing (conn (service_run
      (live_session (\<lambda>w. Inr 1) [(''allow_interruptions'', JBool False)] [])
      [audio_payload ''QUJD'' None, turn_complete_direct])) \<and>
   to_client (service_run
      (live_session (\<lambda>w. Inr 1) [(''allow_interruptions'', JBool False)] [])
      [audio_payload ''QUJD'' None, turn_complete_direct])
     = [CStatus ''config_received'', CStatus ''connected'',
        CAudio (JStr ''QUJD'') (JStr ''audio/opus'')]"
  by code_simp

subsection \<open>Failure of the service channel\<close>

text \<open>
  Claim C9, as amended. When the connection to the service cannot be set up (the socket
  does not open, the setup message cannot be sent, or the wait for its response fails),
  a session whose client sent a configuration and accepts messages ends without starting
  its pumps: the client receives the status \<open>config_received\<close> and then exactly one
  error message, the handler returns, the connection is marked not running and its
  socket is not open, the registry entry is removed, nothing of the schedule is read and
  no audio is transmitted. Teardown does not write the speaking flag, which is still
  false here.
\<close>

theorem connect_failure_teardown:
  assumes "first = Some (JObj config_data)"
      and "dict_get config_data ''type'' JNull = JStr ''config''"
      and "dict_get config_data ''config'' (JObj []) = JObj config0"
      and "\<not> connect_ok n \<or> \<not> setup_send_ok n \<or> setup_recv n = RecvFailed"
  shows "finished (websocket_endpoint L client_id loaded n True connections first events) \<and>
         (\<exists>e. to_client (websocket_endpoint L client_id loaded n True connections first events)
                = [CStatus ''config_received'', CError e]) \<and>
         \<not> running (conn (websocket_endpoint L client_id loaded n True connections first events)) \<and>
         ws (conn (websocket_endpoint L client_id loaded n True connections first events)) \<noteq> WsOpen \<and>
         client_id \<notin> registry (websocket_endpoint L client_id loaded n True connections first events) \<and>
         \<not> is_playing (conn (websocket_endpoint L client_id loaded n True connections first events)) \<and>
         filter is_realtime_input
           (sent (conn (websocket_endpoint L client_id loaded n True connections first events))) = [] \<and>
         websocket_endpoint L client_id loaded n True connections first events
           = websocket_endpoint L client_id loaded n True connections first []"
proof -
  define s0 where "s0 = \<lparr> conn = AwaazConnection_init loaded, to_client = [], client_open = True,
                 client_pump_done = False, service_pump_done = False,
                 registry = insert client_id connections, finished = False \<rparr>"
  define cfg where "cfg = dict_set config0 ''systemPrompt''
      (JStr (if dict_get config0 ''mode'' (JStr ''wellness'') = JStr ''study'' then study_prompt
             else wellness_prompt))"
  define a1 where "a1 = set_config (AwaazConnection_init loaded) cfg"
  obtain e a' where c: "connect n a1 = (Some e, a')"
    and w: "ws a' = (if connect_ok n then WsOpen else ws a1)"
    and p: "is_playing a' = is_playing a1" 
    and f: "filter is_realtime_input (sent a') = filter is_realtime_input (sent a1)"
    using connect_net_failure [OF assms(4), of a1] by blast
  have body: "endpoint_body L n s0 first evs
      = (False, s0\<lparr> conn := a', to_client := [CStatus ''config_received'', CError e] \<rparr>)" for evs
    using assms(1-3) c
    by (simp add: endpoint_body_def s0_def Let_def send_json_def connect_failed_def
          cfg_def [symmetric] a1_def [symmetric])
  have res: "websocket_endpoint L client_id loaded n True connections first evs
      = s0\<lparr> conn := close a', to_client := [CStatus ''config_received'', CError e],
            registry := registry s0 - {client_id}, finished := True \<rparr>" for evs
    using body [of evs]
    by (simp add: websocket_endpoint_def s0_def [symmetric] cleanup_def) (simp add: s0_def)
  have a1: "\<not> is_playing a1" "sent a1 = []" "ws a1 = NoSocket"
    by (simp_all add: a1_def set_config_def AwaazConnection_init_def)
  show ?thesis
    unfolding res using w p f a1
    by (auto simp: close_def s0_def split: ws_state.splits)
qed

theorem connect_failure_teardown_witness:
  "\<not> connect_ok (ok_net\<lparr> connect_ok := False \<rparr>) \<and>
   finished (websocket_endpoint ref_libs ''client-1'' (Inr (\<lambda>w. Inr 1))
      (ok_net\<lparr> connect_ok := False \<rparr>) True {}
      (Some (config_message [(''allow_interruptions'', JBool False)]))
      [FromClient (Audio ''AEAAQA=='' (Some 16000))]) \<and>
   to_client (websocket_endpoint ref_libs ''client-1'' (Inr (\<lambda>w. Inr 1))
      (ok_net\<lparr> connect_ok := False \<rparr>) True {}
      (Some (config_message [(''allow_interruptions'', JBool False)]))
      [FromClient (Audio ''AEAAQA=='' (Some 16000))])
     = [CStatus ''config_received'', CError ConnectionClosed] \<and>
   \<not> running (conn (websocket_endpoint ref_libs ''client-1'' (Inr (\<lambda>w. Inr 1))
      (ok_net\<lparr> connect_ok := False \<rparr>) True {}
      (Some (config_message [(''allow_interruptions'', JBool False)]))
      [FromClient (Audio ''AEAAQA=='' (Some 16000))])) \<and>
   ''client-1'' \<notin> registry (websocket_endpoint ref_libs ''client-1'' (Inr (\<lambda>w. Inr 1))
      (ok_net\<lparr> connect_ok := False \<rparr>) True {}
      (Some (config_message [(''allow_interruptions'', JBool False)]))
      [FromClient (Audio ''AEAAQA=='' (Some 16000))]) \<and>
   filter is_realtime_input (sent (conn (websocket_endpoint ref_libs ''client-1'' (Inr (\<lambda>w. Inr 1))
      (ok_net\<lparr> connect_ok := False \<rparr>) True {}
      (Some (config_message [(''allow_interruptions'', JBool False)]))
      [FromClient (Audio ''AEAAQA=='' (Some 16000))]))) = []"
proof -
  let ?cd = "[(''type'', JStr ''config''), (''config'', JObj [(''allow_interruptions'', JBool False)])]"
  let ?n = "ok_net\<lparr> connect_ok := False \<rparr>"
  let ?S = "websocket_endpoint ref_libs ''client-1'' (Inr (\<lambda>w. Inr 1)) ?n True {}
      (Some (config_message [(''allow_interruptions'', JBool False)]))
      [FromClient (Audio ''AEAAQA=='' (Some 16000))]"
  have h1: "Some (config_message [(''allow_interruptions'', JBool False)]) = Some (JObj ?cd)"
    by (simp add: config_message_def)
  have h2: "dict_get ?cd ''type'' JNull = JStr ''config''"
    by (simp add: dict_get_def)
  have h3: "dict_get ?cd ''config'' (JObj []) = JObj [(''allow_interruptions'', JBool False)]"
    by (simp add: dict_get_def)
  have h4: "\<not> connect_ok ?n \<or> \<not> setup_send_ok ?n \<or> setup_recv ?n = RecvFailed"
    by (simp add: ok_net_def)
  have t: "to_client ?S = [CStatus ''config_received'', CError ConnectionClosed]"
    by code_simp
  note inst = connect_failure_teardown [OF h1 h2 h3 h4, of ref_libs "''client-1''" "Inr (\<lambda>w. Inr 1)" "{}"
            "[FromClient (Audio ''AEAAQA=='' (Some 16000))]"]
  have a: "finished ?S" using inst by blast
  have b: "\<not> running (conn ?S)" using inst by blast
  have c: "''client-1'' \<notin> registry ?S" using inst by blast
  have d: "filter is_realtime_input (sent (conn ?S)) = []" using inst by blast
  have e: "\<not> connect_ok ?n" by (simp add: ok_net_def)
  show ?thesis
    using a b c d e t by blast
qed

text \<open>
  The claim as stated covers a drop of the service channel in mid-session. The service
  sends one audio payload and the channel fails: the service pump returns, no error
  message is sent to the client, and the client pump goes on reading (the handler has not
  returned after the next client frame). When the client disconnects the handler
  returns; the speaking flag is still true after teardown.
\<close>

theorem service_drop_counterexample:
  "finished (live_session (\<lambda>w. Inr 1) [(''allow_interruptions'', JBool False)]
     [FromService (SvcMessage (Some (audio_payload ''QUJD'' None))), FromService SvcClosedError,
      FromClient (Audio ''AEAAQA=='' (Some 16000)), FromClient Disconnect]) \<and>
   is_playing (conn (live_session (\<lambda>w. Inr 1) [(''allow_interruptions'', JBool False)]
     [FromService (SvcMessage (Some (audio_payload ''QUJD'' None))), FromService SvcClosedError,
      FromClient (Audio ''AEAAQA=='' (Some 16000)), FromClient Disconnect])) \<and>
   to_client (live_session (\<lambda>w. Inr 1) [(''allow_interruptions'', JBool False)]
     [FromService (SvcMessage (Some (audio_payload ''QUJD'' None))), FromService SvcClosedError,
      FromClient (Audio ''AEAAQA=='' (Some 16000)), FromClient Disconnect])
     = [CStatus ''config_received'', CStatus ''connected'',
        CAudio (JStr ''QUJD'') (JStr ''audio/opus'')] \<and>
   service_pump_done (live_session (\<lambda>w. Inr 1) [(''allow_interruptions'', JBool False)]
     [FromService (SvcMessage (Some (audio_payload ''QUJD'' None))), FromService SvcClosedError,
      FromClient (Audio ''AEAAQA=='' (Some 16000))]) \<and>
   \<not> client_pump_done (live_session (\<lambda>w. Inr 1) [(''allow_interruptions'', JBool False)]
     [FromService (SvcMessage (Some (audio_payload ''QUJD'' None))), FromService SvcClosedError,
      FromClient (Audio ''AEAAQA=='' (Some 16000))]) \<and>
   \<not> finished (live_session (\<lambda>w. Inr 1) [(''allow_interruptions'', JBool False)]
     [FromService (SvcMessage (Some (audio_payload ''QUJD'' None))), FromService SvcClosedError,
      FromClient (Audio ''AEAAQA=='' (Some 16000))])"
  by code_simp

end
